theory Spec2Isabelle
  imports Complex_Main "HOL-Library.Product_Lexorder"
begin

section \<open>JavaScript values used by the tool-search subsystem\<close>

text \<open>
  Strings are lists of 8-bit characters; a character stands for the code unit of the same
  number. The entries of a vector are real numbers: the rounding of doubles plays no role
  in the properties below. A thrown JavaScript \<open>Error\<close> is a value of type \<open>error\<close>, and a function that
  may throw returns \<open>error + 'a\<close> with \<open>Inl\<close> for the throw.
\<close>

datatype error = Error string

datatype jsval =
    JUndefined
  | JNull
  | JBool bool
  | JNum real
  | JStr string
  | JArr "jsval list"
  | JObj "(string \<times> jsval) list"

text \<open>
  A number where it can be \<open>NaN\<close> or infinite: the result of \<open>parseInt\<close> and
  \<open>parseFloat\<close>, and a value of the database type \<open>float8\<close>.
\<close>

datatype jsnum = NaN | Finite real | PosInf | NegInf

text \<open>The characters matched by \<open>\s\<close> (and removed by \<open>trim\<close>) below code unit 256.\<close>

definition is_space :: "char \<Rightarrow> bool" where
  "is_space c = ((of_char c :: nat) \<in> {9, 10, 11, 12, 13, 32, 160})"

text \<open>\<open>String.prototype.toLowerCase\<close> on the code units below 256.\<close>

definition lower_char :: "char \<Rightarrow> char" where
  "lower_char c =
     (let n = (of_char c :: nat) in
      if (65 \<le> n \<and> n \<le> 90) \<or> (192 \<le> n \<and> n \<le> 222 \<and> n \<noteq> 215)
      then char_of (n + 32) else c)"

definition toLowerCase :: "string \<Rightarrow> string" where
  "toLowerCase s = map lower_char s"

text \<open>
  \<open>s.split(/\s+/)\<close>: the pieces between maximal runs of white space. A leading or a
  trailing run gives an empty first or last piece, and the empty string gives one empty
  piece. The flag says that the previous character was white space.
\<close>

fun split_ws_from :: "bool \<Rightarrow> string \<Rightarrow> string \<Rightarrow> string list" where
  "split_ws_from insp cur [] = [cur]"
| "split_ws_from insp cur (c # cs) =
     (if is_space c
      then (if insp then split_ws_from True cur cs else cur # split_ws_from True [] cs)
      else split_ws_from False (cur @ [c]) cs)"

definition split_ws :: "string \<Rightarrow> string list" where
  "split_ws s = split_ws_from False [] s"

text \<open>Decimal digits and the number that a run of them denotes.\<close>

definition is_digit :: "char \<Rightarrow> bool" where
  "is_digit c = (48 \<le> (of_char c :: nat) \<and> (of_char c :: nat) \<le> 57)"

definition decimal_value :: "string \<Rightarrow> nat" where
  "decimal_value ds = foldl (\<lambda>a c. 10 * a + (of_char c - 48)) 0 ds"

text \<open>\<open>Array.prototype.indexOf\<close>, with \<open>-1\<close> for an absent element.\<close>

fun indexOf :: "'a list \<Rightarrow> 'a \<Rightarrow> int" where
  "indexOf [] x = -1"
| "indexOf (y # ys) x =
     (if y = x then 0 else (let i = indexOf ys x in if i < 0 then -1 else i + 1))"

section \<open>The offline vectorizer\<close>

definition FALLBACK_DIMENSIONS :: nat where
  "FALLBACK_DIMENSIONS = 100"

definition EMBEDDING_DIMENSIONS :: nat where
  "EMBEDDING_DIMENSIONS = 1536"

definition BGE_DIMENSIONS :: nat where
  "BGE_DIMENSIONS = 1024"

definition vocabulary :: "string list" where
  "vocabulary =
    [''search'', ''find'', ''get'', ''fetch'', ''retrieve'', ''query'', ''map'', ''location'',
     ''weather'', ''file'', ''directory'', ''email'', ''message'', ''send'', ''create'',
     ''update'', ''delete'', ''browser'', ''web'', ''page'', ''click'', ''navigate'',
     ''screenshot'', ''automation'', ''database'', ''table'', ''record'', ''insert'',
     ''select'', ''schema'', ''data'', ''image'', ''photo'', ''video'', ''media'', ''upload'',
     ''download'', ''convert'', ''text'', ''document'', ''pdf'', ''excel'', ''word'',
     ''format'', ''parse'', ''api'', ''rest'', ''http'', ''request'', ''response'', ''json'',
     ''xml'', ''time'', ''date'', ''calendar'', ''schedule'', ''reminder'', ''clock'',
     ''math'', ''calculate'', ''number'', ''sum'', ''average'', ''statistics'', ''user'',
     ''account'', ''login'', ''auth'', ''permission'', ''role'']"

text \<open>
  \<open>vector[i] += d\<close>. The source only writes at indices below \<open>vector.length\<close>
  (lemma \<open>embed_word_length\<close> checks that the length never changes).
\<close>

definition add_at :: "real list \<Rightarrow> nat \<Rightarrow> real \<Rightarrow> real list" where
  "add_at vector i d = vector[i := vector ! i + d]"

text \<open>\<open>word.split('').reduce((a, b) => a + b.charCodeAt(0), 0)\<close>\<close>

definition word_hash :: "string \<Rightarrow> nat" where
  "word_hash word = foldl (\<lambda>a b. a + of_char b) 0 word"

text \<open>The body of \<open>words.forEach\<close>, for one word.\<close>

definition embed_word :: "real list \<Rightarrow> string \<Rightarrow> real list" where
  "embed_word vector word =
     (let index = indexOf vocabulary word;
          vector1 = (if index \<ge> 0 \<and> index < int (length vector)
                     then add_at vector (nat index) 1 else vector);
          hash = word_hash word
      in add_at vector1 (hash mod length vector1) (1 / 10))"

definition l2_normalize :: "real list \<Rightarrow> real list" where
  "l2_normalize vector =
     (let magnitude = sqrt (foldl (\<lambda>sum val. sum + val * val) 0 vector)
      in if magnitude > 0 then map (\<lambda>val. val / magnitude) vector else vector)"

definition generateFallbackEmbedding :: "string \<Rightarrow> real list" where
  "generateFallbackEmbedding text =
     (let words = split_ws (toLowerCase text);
          vector = foldl embed_word (replicate FALLBACK_DIMENSIONS 0) words
      in l2_normalize vector)"

text \<open>
  The older revision of the service (\<open>services/vectorSearchService.ts\<close>) has the same
  vectorizer under the name \<open>generateEmbedding\<close>, with the width written as the literal 100.
\<close>

definition generateEmbedding_hash :: "string \<Rightarrow> real list" where
  "generateEmbedding_hash text =
     (let words = split_ws (toLowerCase text);
          vector = foldl embed_word (replicate 100 0) words
      in l2_normalize vector)"

text \<open>
  The network provider of the newer revision. \<open>apiKey\<close> is the configured key,
  \<open>embeddings_create model input\<close> is the call to the embedding service: it throws, or it
  returns the list \<open>response.data\<close> of embeddings.
\<close>

record provider =
  apiKey :: "string option"
  EMBEDDING_MODEL :: string
  embeddings_create :: "string \<Rightarrow> string \<Rightarrow> error + real list list"

definition generateEmbedding :: "provider \<Rightarrow> string \<Rightarrow> real list" where
  "generateEmbedding p text =
     (if apiKey p = None \<or> apiKey p = Some [] then generateFallbackEmbedding text
      else
        (let truncatedText = (if length text > 8000 then take 8000 text else text)
         in case embeddings_create p (EMBEDDING_MODEL p) truncatedText of
              Inl e \<Rightarrow> generateFallbackEmbedding text
            | Inr [] \<Rightarrow> generateFallbackEmbedding text
            | Inr (d # ds) \<Rightarrow> d))"

text \<open>The primary strategy is unavailable for a text: no key, or the call throws.\<close>

definition primary_fails :: "provider \<Rightarrow> string \<Rightarrow> bool" where
  "primary_fails p text =
     (apiKey p = None \<or> apiKey p = Some [] \<or>
      (case embeddings_create p (EMBEDDING_MODEL p)
              (if length text > 8000 then take 8000 text else text) of
         Inl e \<Rightarrow> True | Inr ds \<Rightarrow> ds = []))"

section \<open>Properties of the offline vectorizer\<close>

lemma add_at_length: "length (add_at v i d) = length v"
  by (simp add: add_at_def)

lemma embed_word_length: "length (embed_word v w) = length v"
  by (simp add: embed_word_def Let_def add_at_length)

lemma foldl_embed_word_length: "length (foldl embed_word v ws) = length v"
  by (induction ws arbitrary: v) (simp_all add: embed_word_length)

lemma l2_normalize_length: "length (l2_normalize v) = length v"
  by (simp add: l2_normalize_def Let_def)

lemma generateFallbackEmbedding_length:
  "length (generateFallbackEmbedding t) = FALLBACK_DIMENSIONS"
  by (simp add: generateFallbackEmbedding_def Let_def l2_normalize_length foldl_embed_word_length)

lemma generateEmbedding_fallback:
  "primary_fails p t \<Longrightarrow> generateEmbedding p t = generateFallbackEmbedding t"
  by (auto simp: primary_fails_def generateEmbedding_def Let_def split: sum.splits list.splits)

text \<open>
  C3. The offline vectorizer returns, for every text, a vector of exactly
  \<open>FALLBACK_DIMENSIONS\<close> numbers (no step of it can throw, and no write leaves the array),
  the older revision's vectorizer is the same function, and the result depends on the text
  alone: two invocations on the same text, in any two states of the provider in which the
  offline strategy is the one used, return the same vector, entry by entry.
\<close>

theorem offline_vectorizer_total_deterministic:
  "length (generateFallbackEmbedding t) = FALLBACK_DIMENSIONS \<and>
   generateEmbedding_hash t = generateFallbackEmbedding t \<and>
   (\<forall>p q. primary_fails p t \<and> primary_fails q t \<longrightarrow>
      length (generateEmbedding p t) = FALLBACK_DIMENSIONS \<and>
      (\<forall>i < FALLBACK_DIMENSIONS. generateEmbedding p t ! i = generateEmbedding q t ! i))"
proof (intro conjI allI impI)
  show "length (generateFallbackEmbedding t) = FALLBACK_DIMENSIONS"
    by (rule generateFallbackEmbedding_length)
  show "generateEmbedding_hash t = generateFallbackEmbedding t"
    by (simp add: generateEmbedding_hash_def generateFallbackEmbedding_def
        FALLBACK_DIMENSIONS_def)
next
  fix p q
  assume "primary_fails p t \<and> primary_fails q t"
  then show "length (generateEmbedding p t) = FALLBACK_DIMENSIONS"
    by (simp add: generateEmbedding_fallback generateFallbackEmbedding_length)
next
  fix p q i
  assume "primary_fails p t \<and> primary_fails q t"
  then show "generateEmbedding p t ! i = generateEmbedding q t ! i"
    by (simp add: generateEmbedding_fallback)
qed

definition offline_provider :: provider where
  "offline_provider =
     \<lparr>apiKey = None, EMBEDDING_MODEL = ''text-embedding-3-small'',
      embeddings_create = (\<lambda>m i. Inl (Error ''no client''))\<rparr>"

definition failing_provider :: provider where
  "failing_provider =
     \<lparr>apiKey = Some ''sk-test'', EMBEDDING_MODEL = ''text-embedding-3-small'',
      embeddings_create = (\<lambda>m i. Inl (Error ''503 service unavailable''))\<rparr>"

lemma primary_fails_offline_provider: "primary_fails offline_provider t"
  by (simp add: primary_fails_def offline_provider_def)

lemma primary_fails_failing_provider: "primary_fails failing_provider t"
  by (simp add: primary_fails_def failing_provider_def)

theorem offline_vectorizer_witness:
  "primary_fails offline_provider ''get weather'' \<and>
   primary_fails failing_provider ''get weather'' \<and>
   length (generateFallbackEmbedding ''get weather'') = FALLBACK_DIMENSIONS \<and>
   length (generateEmbedding failing_provider ''get weather'') = FALLBACK_DIMENSIONS \<and>
   generateEmbedding offline_provider ''get weather'' ! 8 =
     generateEmbedding failing_provider ''get weather'' ! 8"
proof -
  have a: "primary_fails offline_provider ''get weather''"
    by (rule primary_fails_offline_provider)
  have b: "primary_fails failing_provider ''get weather''"
    by (rule primary_fails_failing_provider)
  have c: "(8::nat) < FALLBACK_DIMENSIONS"
    by (simp add: FALLBACK_DIMENSIONS_def)
  from offline_vectorizer_total_deterministic [of "''get weather''"] a b c
  show ?thesis by blast
qed

section \<open>The database behind the vector record store\<close>

text \<open>
  One row of the table \<open>vector_embeddings\<close>. \<open>ve_id\<close> is \<open>None\<close> for an entity that
  was never saved.
\<close>

record VectorEmbedding =
  ve_id :: "nat option"
  content_type :: string
  content_id :: string
  text_content :: string
  metadata :: jsval
  embedding :: "real list"
  dimensions :: nat
  model :: string

datatype index_method = Ivfflat | Hnsw | Gin

text \<open>The statements the code sends to the database.\<close>

datatype stmt =
    SelectTypmod
  | DropIndex
  | AlterWidth nat
  | CreateIndex index_method
  | CreateExtension
  | SelectTableExists
  | SelectColumnType
  | AlterToVector
  | SelectDimensions
  | FindOneBy string string
  | SaveRow VectorEmbedding
  | SimilarityQuery "real list" nat real "string list option"

text \<open>
  The database engine is outside the repository, so what it does is a parameter:
  \<open>refuses s\<close> is the message of the error the engine raises for the statement \<open>s\<close>
  (\<open>None\<close> when it runs the statement), \<open>typmod_of n\<close> is the \<open>atttypmod\<close> it reports for
  a column declared \<open>vector(n)\<close>, and \<open>distance\<close> is its operator \<open><=>\<close>. An engine
  answers a statement in the same way each time it is issued.
\<close>

record engine =
  refuses :: "stmt \<Rightarrow> string option"
  typmod_of :: "nat \<Rightarrow> int"
  distance :: "real list \<Rightarrow> real list \<Rightarrow> jsnum"

text \<open>
  The state of the database: whether the data source is initialized, whether the table
  \<open>vector_embeddings\<close> exists, the \<open>atttypmod\<close> of the column \<open>embedding\<close> (\<open>-1\<close>: no
  width declared), whether the column has the type \<open>vector\<close>, the index
  \<open>idx_vector_embeddings_embedding\<close>, the rows, the next generated id, and the statements
  issued so far. The rows are changed by \<open>save\<close> below, the schema by \<open>effect\<close>.
\<close>

record database =
  isInitialized :: bool
  table_exists :: bool
  atttypmod :: int
  is_vector_column :: bool
  index :: "index_method option"
  table :: "VectorEmbedding list"
  next_id :: nat
  issued :: "stmt list"

text \<open>What a statement that the engine runs does to the schema.\<close>

fun effect :: "engine \<Rightarrow> stmt \<Rightarrow> database \<Rightarrow> database" where
  "effect eng DropIndex d = d\<lparr>index := None\<rparr>"
| "effect eng (AlterWidth n) d = d\<lparr>atttypmod := typmod_of eng n, is_vector_column := True\<rparr>"
| "effect eng (CreateIndex m) d = (if index d = None then d\<lparr>index := Some m\<rparr> else d)"
| "effect eng AlterToVector d = d\<lparr>is_vector_column := True\<rparr>"
| "effect eng s d = d"

text \<open>\<open>AppDataSource.query\<close>: the statement is recorded, then refused or run.\<close>

definition query :: "engine \<Rightarrow> stmt \<Rightarrow> database \<Rightarrow> (error + unit) \<times> database" where
  "query eng s d =
     (let d1 = d\<lparr>issued := issued d @ [s]\<rparr>
      in case refuses eng s of
           Some msg \<Rightarrow> (Inl (Error msg), d1)
         | None \<Rightarrow> (Inr (), effect eng s d1))"

text \<open>Sequencing of awaited calls: the first throw ends the sequence.\<close>

definition and_then ::
  "(error + 'a) \<times> database \<Rightarrow> ('a \<Rightarrow> database \<Rightarrow> (error + 'b) \<times> database) \<Rightarrow>
   (error + 'b) \<times> database" where
  "and_then r f = (case r of (Inl e, d) \<Rightarrow> (Inl e, d) | (Inr x, d) \<Rightarrow> f x d)"

definition schema_changing :: "stmt \<Rightarrow> bool" where
  "schema_changing s =
     (case s of DropIndex \<Rightarrow> True | AlterWidth n \<Rightarrow> True | CreateIndex m \<Rightarrow> True
      | AlterToVector \<Rightarrow> True | CreateExtension \<Rightarrow> True | _ \<Rightarrow> False)"

section \<open>The schema reconciler\<close>

text \<open>
  The width the code reads from the rows of
  \<open>SELECT atttypmod as dimensions FROM pg_attribute ...\<close>.
\<close>

definition currentDimensions_of :: "int list \<Rightarrow> int" where
  "currentDimensions_of result =
     (case result of
        [] \<Rightarrow> 0
      | dims # rest \<Rightarrow> (if dims \<noteq> 0 then (if dims > 0 then dims - 4 else 0) else 0))"

definition checkDatabaseVectorDimensions_try ::
  "engine \<Rightarrow> nat \<Rightarrow> database \<Rightarrow> (error + unit) \<times> database" where
  "checkDatabaseVectorDimensions_try eng dimensionsNeeded d =
     (if \<not> isInitialized d then (Inr (), d)
      else
        and_then (query eng SelectTypmod d) (\<lambda>u d1.
          let result = [atttypmod d1];
              currentDimensions = currentDimensions_of result
          in if currentDimensions = 0 \<or> currentDimensions \<noteq> int dimensionsNeeded
             then
               and_then (query eng DropIndex d1) (\<lambda>u d2.
               and_then (query eng (AlterWidth dimensionsNeeded) d2) (\<lambda>u d3.
               query eng (CreateIndex Ivfflat) d3))
             else (Inr (), d1)))"

text \<open>The \<open>catch\<close> of the function: any error is thrown again under a new message.\<close>

definition checkDatabaseVectorDimensions ::
  "engine \<Rightarrow> nat \<Rightarrow> database \<Rightarrow> (error + unit) \<times> database" where
  "checkDatabaseVectorDimensions eng dimensionsNeeded d =
     (case checkDatabaseVectorDimensions_try eng dimensionsNeeded d of
        (Inl (Error msg), d') \<Rightarrow>
          (Inl (Error (''Vector dimension check failed: '' @
                       (if msg = [] then ''Unknown error'' else msg))), d')
      | (Inr u, d') \<Rightarrow> (Inr u, d'))"

text \<open>
  The vector set-up of \<open>initializeDatabase\<close> (\<open>db/connection.ts\<close>), run once when the
  connection is opened. \<open>catching\<close> is a \<open>catch\<close> block that only logs a warning.
\<close>

definition catching :: "(error + unit) \<times> database \<Rightarrow> (error + unit) \<times> database" where
  "catching r = (case r of (Inl e, d) \<Rightarrow> (Inr (), d) | (Inr u, d) \<Rightarrow> (Inr u, d))"

text \<open>Step 3 of the set-up: the width, then the index strategies in their order.\<close>

definition initializeDatabase_indices :: "engine \<Rightarrow> database \<Rightarrow> (error + unit) \<times> database" where
  "initializeDatabase_indices eng d =
     (case
        and_then (query eng SelectDimensions d) (\<lambda>u d1.
          let records = map dimensions (take 1 (table d1));
              dims = (case records of [] \<Rightarrow> 1536 | n # rest \<Rightarrow> (if n \<noteq> 0 then n else 1536))
          in and_then (query eng (AlterWidth dims) d1) (\<lambda>u d2.
             query eng (CreateIndex Ivfflat) d2))
      of
        (Inr u, d') \<Rightarrow> (Inr u, d')
      | (Inl indexError, d') \<Rightarrow>
          (case query eng (CreateIndex Hnsw) d' of
             (Inr u, d'') \<Rightarrow> (Inr u, d'')
           | (Inl hnswError, d'') \<Rightarrow> catching (query eng (CreateIndex Gin) d'')))"

definition initializeDatabase_vector_setup ::
  "engine \<Rightarrow> database \<Rightarrow> (error + unit) \<times> database" where
  "initializeDatabase_vector_setup eng d0 =
     and_then (catching (query eng CreateExtension d0)) (\<lambda>u d.
     catching
       (and_then (query eng CreateExtension d) (\<lambda>u d1.
        and_then (query eng SelectTableExists d1) (\<lambda>u d2.
          if table_exists d2 then
            and_then (catching (query eng DropIndex d2)) (\<lambda>u d3.
            and_then
              (catching
                (and_then (query eng SelectColumnType d3) (\<lambda>u d4.
                   if \<not> is_vector_column d4 then query eng AlterToVector d4 else (Inr (), d4))))
              (\<lambda>u d5. initializeDatabase_indices eng d5))
          else (Inr (), d2)))))"

section \<open>The cosine distance\<close>

text \<open>
  The operator \<open><=>\<close> on two vectors of one length: one minus the dot product divided by
  the root of the product of the squared norms. For a zero vector this is \<open>0 / 0\<close>, which
  is not a number.
\<close>

definition dot :: "real list \<Rightarrow> real list \<Rightarrow> real" where
  "dot a b = sum_list (map (\<lambda>(x, y). x * y) (zip a b))"

definition cosine_distance :: "real list \<Rightarrow> real list \<Rightarrow> jsnum" where
  "cosine_distance a b =
     (if dot a a * dot b b = 0 then NaN
      else Finite (1 - dot a b / sqrt (dot a a * dot b b)))"

section \<open>Example engines and databases\<close>

text \<open>
  An engine that runs every statement and reports a width \<open>w\<close> as \<open>w + 4\<close>, the encoding
  the comment in \<open>checkDatabaseVectorDimensions\<close> assumes.
\<close>

definition plain_engine :: engine where
  "plain_engine =
     \<lparr>refuses = (\<lambda>s. None), typmod_of = (\<lambda>n. int n + 4), distance = cosine_distance\<rparr>"

text \<open>An engine without the index method \<open>ivfflat\<close>.\<close>

definition no_ivfflat_engine :: engine where
  "no_ivfflat_engine =
     \<lparr>refuses = (\<lambda>s. if s = CreateIndex Ivfflat
                       then Some ''access method ivfflat does not exist'' else None),
      typmod_of = (\<lambda>n. int n + 4), distance = cosine_distance\<rparr>"

text \<open>An engine on which no index can be created.\<close>

definition no_index_engine :: engine where
  "no_index_engine =
     \<lparr>refuses = (\<lambda>s. case s of CreateIndex m \<Rightarrow> Some ''unsupported access method''
                       | _ \<Rightarrow> None),
      typmod_of = (\<lambda>n. int n + 4), distance = cosine_distance\<rparr>"

text \<open>A connected database with an empty table and no declared width.\<close>

definition fresh_database :: database where
  "fresh_database =
     \<lparr>isInitialized = True, table_exists = True, atttypmod = -1, is_vector_column = True,
      index = None, table = [], next_id = 1, issued = []\<rparr>"

section \<open>Properties of the schema reconciler\<close>

lemma query_ok:
  "query eng s d = (Inr u, d') \<longleftrightarrow>
   refuses eng s = None \<and> d' = effect eng s (d\<lparr>issued := issued d @ [s]\<rparr>)"
  by (auto simp: query_def Let_def split: option.splits)

lemma and_then_ok:
  "and_then r f = (Inr y, d') \<longleftrightarrow> (\<exists>x d1. r = (Inr x, d1) \<and> f x d1 = (Inr y, d'))"
  by (auto simp: and_then_def split: prod.splits sum.splits)

lemma checkDatabaseVectorDimensions_ok:
  "checkDatabaseVectorDimensions eng w d = (Inr u, d') \<longleftrightarrow>
   checkDatabaseVectorDimensions_try eng w d = (Inr u, d')"
  by (auto simp: checkDatabaseVectorDimensions_def split: prod.splits sum.splits error.splits)

text \<open>After a successful check of an initialized database the declared width is the target.\<close>

lemma checkDatabaseVectorDimensions_width:
  assumes "0 < w" and "typmod_of eng w = int w + 4" and "isInitialized d"
    and "checkDatabaseVectorDimensions_try eng w d = (Inr u, d')"
  shows "atttypmod d' = int w + 4 \<and> isInitialized d' \<and> refuses eng SelectTypmod = None"
proof -
  from assms(3,4) obtain d1 where
    q: "query eng SelectTypmod d = (Inr (), d1)" and
    rest: "(let result = [atttypmod d1];
                currentDimensions = currentDimensions_of result
            in if currentDimensions = 0 \<or> currentDimensions \<noteq> int w
               then
                 and_then (query eng DropIndex d1) (\<lambda>u d2.
                 and_then (query eng (AlterWidth w) d2) (\<lambda>u d3.
                 query eng (CreateIndex Ivfflat) d3))
               else (Inr (), d1)) = (Inr u, d')"
    by (auto simp: checkDatabaseVectorDimensions_try_def and_then_ok)
  from q have r: "refuses eng SelectTypmod = None"
    and d1: "d1 = d\<lparr>issued := issued d @ [SelectTypmod]\<rparr>"
    by (simp_all add: query_ok)
  show ?thesis
  proof (cases "currentDimensions_of [atttypmod d1] = 0 \<or>
                currentDimensions_of [atttypmod d1] \<noteq> int w")
    case True
    with rest obtain d2 d3 where
      "query eng DropIndex d1 = (Inr (), d2)"
      "query eng (AlterWidth w) d2 = (Inr (), d3)"
      "query eng (CreateIndex Ivfflat) d3 = (Inr u, d')"
      by (auto simp: Let_def and_then_ok)
    then show ?thesis using r d1 assms(2,3)
      by (auto simp: query_ok)
  next
    case False
    with rest have "d' = d1" by (simp add: Let_def)
    moreover from False assms(1) have "atttypmod d1 = int w + 4"
      by (auto simp: currentDimensions_of_def split: if_splits)
    ultimately show ?thesis using r d1 assms(3) by simp
  qed
qed

text \<open>
  The check itself is right for the encoding its comment assumes ("dimensions + 4"): on
  an engine that reported \<open>atttypmod = w + 4\<close> for \<open>vector(w)\<close>, \<open>w \<ge> 1\<close>, a second call
  with the same width would issue the introspection query only.
\<close>

lemma reconcile_twice_under_offset_encoding:
  assumes "0 < w" and "typmod_of eng w = int w + 4"
    and "checkDatabaseVectorDimensions eng w d = (Inr (), d1)"
  shows "checkDatabaseVectorDimensions eng w d1 =
           (Inr (), d1\<lparr>issued := issued d1 @ (if isInitialized d1 then [SelectTypmod] else [])\<rparr>)"
proof (cases "isInitialized d")
  case False
  with assms(3) have "d1 = d"
    by (simp add: checkDatabaseVectorDimensions_def checkDatabaseVectorDimensions_try_def)
  with False show ?thesis
    by (simp add: checkDatabaseVectorDimensions_def checkDatabaseVectorDimensions_try_def)
next
  case True
  from assms(3) have "checkDatabaseVectorDimensions_try eng w d = (Inr (), d1)"
    by (simp add: checkDatabaseVectorDimensions_ok)
  from checkDatabaseVectorDimensions_width [OF assms(1,2) True this]
  have t: "atttypmod d1 = int w + 4" and i: "isInitialized d1"
    and r: "refuses eng SelectTypmod = None"
    by simp_all
  from assms(1) t have "currentDimensions_of [atttypmod d1] = int w"
    by (simp add: currentDimensions_of_def)
  with assms(1) i r show ?thesis
    by (simp add: checkDatabaseVectorDimensions_def checkDatabaseVectorDimensions_try_def
        and_then_def query_def Let_def)
qed

text \<open>
  The engine as pgvector is: the \<open>atttypmod\<close> of a column \<open>vector(w)\<close> is \<open>w\<close> itself, and
  every statement is run.
\<close>

definition bare_width_engine :: engine where
  "bare_width_engine =
     \<lparr>refuses = (\<lambda>s. None), typmod_of = (\<lambda>n. int n), distance = cosine_distance\<rparr>"

text \<open>The database after the first \<open>checkDatabaseVectorDimensions 100\<close> on this engine.\<close>

definition bare_width_database :: database where
  "bare_width_database =
     fresh_database\<lparr>atttypmod := 100, index := Some Ivfflat,
       issued := [SelectTypmod, DropIndex, AlterWidth 100, CreateIndex Ivfflat]\<rparr>"

text \<open>
  On such an engine the code reads the width \<open>w\<close> back as \<open>w - 4\<close> (as 0 for \<open>w = 4\<close>),
  which is never the target: every call on a column of the width \<open>w\<close> drops the index,
  alters the column and creates the index, whatever \<open>w\<close> is.
\<close>

lemma reconcile_bare_width_always_migrates:
  assumes "isInitialized d" and "atttypmod d = int w" and "typmod_of eng w = int w"
    and "refuses eng SelectTypmod = None" and "refuses eng DropIndex = None"
    and "refuses eng (AlterWidth w) = None" and "refuses eng (CreateIndex Ivfflat) = None"
  shows "checkDatabaseVectorDimensions eng w d =
           (Inr (), d\<lparr>issued := issued d @
                        [SelectTypmod, DropIndex, AlterWidth w, CreateIndex Ivfflat],
                      index := Some Ivfflat, atttypmod := int w, is_vector_column := True\<rparr>)"
  using assms
  by (simp add: checkDatabaseVectorDimensions_def checkDatabaseVectorDimensions_try_def
      and_then_def query_def Let_def currentDimensions_of_def)

text \<open>
  C5. The reconciler is not idempotent on pgvector. \<open>checkDatabaseVectorDimensions 100\<close>
  succeeds on a database with no declared width and leaves the column at the width 100
  with its index. The second call with the same width reads \<open>atttypmod = 100\<close> as the
  width 96, and again drops the index, alters the column and creates the index: three
  schema-changing statements where the claim has none.
\<close>

theorem reconcile_twice_migrates_twice:
  "checkDatabaseVectorDimensions bare_width_engine 100 fresh_database =
     (Inr (), bare_width_database) \<and>
   currentDimensions_of [atttypmod bare_width_database] = 96 \<and>
   checkDatabaseVectorDimensions bare_width_engine 100 bare_width_database =
     (Inr (), bare_width_database\<lparr>issued := issued bare_width_database @
        [SelectTypmod, DropIndex, AlterWidth 100, CreateIndex Ivfflat]\<rparr>) \<and>
   schema_changing DropIndex \<and> schema_changing (AlterWidth 100) \<and>
   schema_changing (CreateIndex Ivfflat)"
  by (simp add: checkDatabaseVectorDimensions_def checkDatabaseVectorDimensions_try_def
      and_then_def query_def Let_def currentDimensions_of_def bare_width_engine_def
      fresh_database_def bare_width_database_def schema_changing_def)

text \<open>
  C6. In \<open>checkDatabaseVectorDimensions\<close> only \<open>ivfflat\<close> is tried. On an engine that
  refuses it the call throws, after the old index was dropped and the column altered:
  neither \<open>hnsw\<close> nor \<open>gin\<close> is tried, and the operation that triggered the
  reconciliation fails instead of going on without an index.
\<close>

theorem reconciler_throws_without_ivfflat:
  "checkDatabaseVectorDimensions no_ivfflat_engine 100 fresh_database =
     (Inl (Error ''Vector dimension check failed: access method ivfflat does not exist''),
      fresh_database\<lparr>atttypmod := 104,
        issued := [SelectTypmod, DropIndex, AlterWidth 100, CreateIndex Ivfflat]\<rparr>)"
  by (simp add: checkDatabaseVectorDimensions_def checkDatabaseVectorDimensions_try_def
      and_then_def query_def Let_def currentDimensions_of_def no_ivfflat_engine_def
      fresh_database_def)

text \<open>
  The set-up in \<open>initializeDatabase\<close> is the path that does what the claim says: it never
  throws, it tries \<open>ivfflat\<close>, \<open>hnsw\<close> and \<open>gin\<close> in this order, and it goes on without
  an index when the engine refuses all three.
\<close>

lemma catching_never_throws: "\<exists>d'. catching r = (Inr (), d')"
  by (cases r) (auto simp: catching_def split: sum.splits)

lemma initializeDatabase_vector_setup_never_throws:
  "\<exists>d'. initializeDatabase_vector_setup eng d = (Inr (), d')"
proof -
  obtain d1 where "catching (query eng CreateExtension d) = (Inr (), d1)"
    using catching_never_throws by blast
  then show ?thesis
    by (simp add: initializeDatabase_vector_setup_def and_then_def catching_never_throws)
qed

lemma initializeDatabase_falls_back_to_hnsw:
  "initializeDatabase_vector_setup no_ivfflat_engine fresh_database =
     (Inr (), fresh_database\<lparr>atttypmod := 1540, index := Some Hnsw,
        issued := [CreateExtension, CreateExtension, SelectTableExists, DropIndex,
                   SelectColumnType, SelectDimensions, AlterWidth 1536, CreateIndex Ivfflat,
                   CreateIndex Hnsw]\<rparr>)"
  by (simp add: initializeDatabase_vector_setup_def initializeDatabase_indices_def
      catching_def and_then_def query_def Let_def no_ivfflat_engine_def fresh_database_def)

lemma initializeDatabase_without_any_index:
  "initializeDatabase_vector_setup no_index_engine fresh_database =
     (Inr (), fresh_database\<lparr>atttypmod := 1540, index := None,
        issued := [CreateExtension, CreateExtension, SelectTableExists, DropIndex,
                   SelectColumnType, SelectDimensions, AlterWidth 1536, CreateIndex Ivfflat,
                   CreateIndex Hnsw, CreateIndex Gin]\<rparr>)"
  by (simp add: initializeDatabase_vector_setup_def initializeDatabase_indices_def
      catching_def and_then_def query_def Let_def no_index_engine_def fresh_database_def)

section \<open>The vector record store\<close>

text \<open>\<open>new VectorEmbedding()\<close>: no field is set.\<close>

definition new_VectorEmbedding :: VectorEmbedding where
  "new_VectorEmbedding =
     \<lparr>ve_id = None, content_type = [], content_id = [], text_content = [],
      metadata = JUndefined, embedding = [], dimensions = 0, model = []\<rparr>"

definition has_identity :: "string \<Rightarrow> string \<Rightarrow> VectorEmbedding \<Rightarrow> bool" where
  "has_identity contentType contentId r =
     (content_type r = contentType \<and> content_id r = contentId)"

definition findByContentIdentity ::
  "engine \<Rightarrow> string \<Rightarrow> string \<Rightarrow> database \<Rightarrow> (error + VectorEmbedding option) \<times> database" where
  "findByContentIdentity eng contentType contentId d =
     and_then (query eng (FindOneBy contentType contentId) d) (\<lambda>u d1.
       (Inr (find (has_identity contentType contentId) (table d1)), d1))"

text \<open>
  Modelled from the spec: \<open>BaseRepository.save\<close> (\<open>repositories/BaseRepository.ts\<close> is
  not among the sources), "insert or replace the record": an entity without an id is
  inserted under a generated id, an entity with an id replaces the row of that id.
\<close>

definition save :: "engine \<Rightarrow> VectorEmbedding \<Rightarrow> database \<Rightarrow> (error + VectorEmbedding) \<times> database" where
  "save eng e d =
     and_then (query eng (SaveRow e) d) (\<lambda>u d1.
       case ve_id e of
         None \<Rightarrow>
           (let e' = e\<lparr>ve_id := Some (next_id d1)\<rparr>
            in (Inr e', d1\<lparr>table := table d1 @ [e'], next_id := Suc (next_id d1)\<rparr>))
       | Some i \<Rightarrow>
           (Inr e, d1\<lparr>table := map (\<lambda>r. if ve_id r = Some i then e else r) (table d1)\<rparr>))"

definition saveEmbedding ::
  "engine \<Rightarrow> string \<Rightarrow> string \<Rightarrow> string \<Rightarrow> real list \<Rightarrow> jsval \<Rightarrow> string \<Rightarrow> database \<Rightarrow>
   (error + VectorEmbedding) \<times> database" where
  "saveEmbedding eng contentType contentId textContent emb meta mdl d =
     and_then (findByContentIdentity eng contentType contentId d) (\<lambda>found d1.
       let vectorEmbedding0 =
             (case found of
                None \<Rightarrow> new_VectorEmbedding\<lparr>content_type := contentType, content_id := contentId\<rparr>
              | Some v \<Rightarrow> v);
           vectorEmbedding = vectorEmbedding0
             \<lparr>text_content := textContent, embedding := emb, dimensions := length emb,
              metadata := meta, model := mdl\<rparr>
       in save eng vectorEmbedding d1)"

text \<open>Every stored row has its primary key, and its \<open>dimensions\<close> is the length of its vector.\<close>

definition rows_have_ids :: "database \<Rightarrow> bool" where
  "rows_have_ids d = list_all (\<lambda>r. ve_id r \<noteq> None) (table d)"

definition dimensions_invariant :: "database \<Rightarrow> bool" where
  "dimensions_invariant d = list_all (\<lambda>r. dimensions r = length (embedding r)) (table d)"

lemma query_table: "query eng s d = (r, d') \<Longrightarrow> table d' = table d"
  by (cases s) (auto simp: query_def Let_def split: option.splits if_splits)

lemma find_replace_by_id:
  "find P xs = Some v \<Longrightarrow> P e \<Longrightarrow> ve_id v = Some i \<Longrightarrow>
   find P (map (\<lambda>r. if ve_id r = Some i then e else r) xs) = Some e"
  by (induction xs) (auto split: if_splits)

lemma find_append_new:
  "find P xs = None \<Longrightarrow> P e \<Longrightarrow> find P (xs @ [e]) = Some e"
  by (induction xs) (auto split: if_splits)

lemma find_has_identity:
  "find (has_identity ct cid) xs = Some v \<Longrightarrow> v \<in> set xs \<and> content_type v = ct \<and> content_id v = cid"
  by (induction xs) (auto simp: has_identity_def split: if_splits)

lemma findByContentIdentity_ok:
  "findByContentIdentity eng ct cid d = (Inr found, d1) \<Longrightarrow>
   found = find (has_identity ct cid) (table d) \<and> table d1 = table d"
  by (auto simp: findByContentIdentity_def and_then_ok dest: query_table)

lemma save_ok:
  assumes "save eng v d = (Inr e, d')"
  shows "case ve_id v of
           None \<Rightarrow> (\<exists>n. e = v\<lparr>ve_id := Some n\<rparr>) \<and> table d' = table d @ [e]
         | Some i \<Rightarrow> e = v \<and> table d' = map (\<lambda>r. if ve_id r = Some i then e else r) (table d)"
  using assms
  by (cases "ve_id v")
     (auto simp: save_def and_then_def query_def Let_def split: option.splits)

text \<open>
  C2. After a successful \<open>saveEmbedding\<close> the saved entity has the vector that was
  passed in and \<open>dimensions\<close> equal to its length, and it is the record that the store
  holds for the content type and content id, whether it was inserted or replaced an
  older record; a table in which every record has \<open>dimensions\<close> equal to the length of
  its vector stays so, hence every record that the store ever persists has the property.
\<close>

theorem saveEmbedding_sets_dimensions:
  assumes ok: "saveEmbedding eng contentType contentId textContent emb meta mdl d = (Inr e, d')"
    and ids: "rows_have_ids d"
  shows "dimensions e = length emb \<and> embedding e = emb \<and>
         find (has_identity contentType contentId) (table d') = Some e \<and>
         rows_have_ids d' \<and>
         (dimensions_invariant d \<longrightarrow> dimensions_invariant d')"
proof -
  define v0 where "v0 = (case find (has_identity contentType contentId) (table d) of
      None \<Rightarrow> new_VectorEmbedding\<lparr>content_type := contentType, content_id := contentId\<rparr>
    | Some v \<Rightarrow> v)"
  define v where "v = v0\<lparr>text_content := textContent, embedding := emb,
      dimensions := length emb, metadata := meta, model := mdl\<rparr>"
  from ok obtain found d1 where
    f: "findByContentIdentity eng contentType contentId d = (Inr found, d1)" and
    s0: "(let vectorEmbedding0 =
             (case found of
                None \<Rightarrow> new_VectorEmbedding\<lparr>content_type := contentType, content_id := contentId\<rparr>
              | Some v \<Rightarrow> v);
           vectorEmbedding = vectorEmbedding0
             \<lparr>text_content := textContent, embedding := emb, dimensions := length emb,
              metadata := meta, model := mdl\<rparr>
       in save eng vectorEmbedding d1) = (Inr e, d')"
    unfolding saveEmbedding_def and_then_ok by blast
  from findByContentIdentity_ok [OF f]
  have found: "found = find (has_identity contentType contentId) (table d)"
    and t1: "table d1 = table d" by simp_all
  from s0 found have s: "save eng v d1 = (Inr e, d')"
    by (simp add: Let_def v_def v0_def)
  have idv: "has_identity contentType contentId v"
    by (cases "find (has_identity contentType contentId) (table d)")
       (auto simp: v_def v0_def has_identity_def dest: find_has_identity)
  have dv: "dimensions v = length emb" "embedding v = emb" by (simp_all add: v_def)
  show ?thesis
  proof (cases "find (has_identity contentType contentId) (table d)")
    case None
    then have "ve_id v = None" by (simp add: v_def v0_def new_VectorEmbedding_def)
    with save_ok [OF s] t1 obtain n where e: "e = v\<lparr>ve_id := Some n\<rparr>"
      and d': "table d' = table d @ [e]" by auto
    from idv e have "has_identity contentType contentId e" by (simp add: has_identity_def)
    with None have "find (has_identity contentType contentId) (table d') = Some e"
      using d' by (simp add: find_append_new)
    then show ?thesis using e d' ids dv
      by (simp add: rows_have_ids_def dimensions_invariant_def)
  next
    case (Some x)
    then have "x \<in> set (table d)" by (simp add: find_has_identity)
    with ids obtain i where i: "ve_id x = Some i"
      by (auto simp: rows_have_ids_def list_all_iff)
    with Some have vi: "ve_id v = Some i" by (simp add: v_def v0_def)
    with save_ok [OF s] t1 have e: "e = v"
      and d': "table d' = map (\<lambda>r. if ve_id r = Some i then e else r) (table d)" by auto
    from idv e have "has_identity contentType contentId e" by simp
    with Some i have "find (has_identity contentType contentId) (table d') = Some e"
      using d' by (simp add: find_replace_by_id)
    then show ?thesis using e d' ids vi dv
      by (auto simp: rows_have_ids_def dimensions_invariant_def list_all_iff)
  qed
qed

definition stored_row :: VectorEmbedding where
  "stored_row =
     \<lparr>ve_id = Some 1, content_type = ''tool'', content_id = ''weather:getForecast'',
      text_content = ''getForecast'', metadata = JNull, embedding = [1, 0], dimensions = 2,
      model = ''fallback''\<rparr>"

definition replaced_row :: VectorEmbedding where
  "replaced_row =
     stored_row\<lparr>text_content := ''getForecast Get weather forecast'',
       embedding := [3 / 5, 4 / 5, 0], dimensions := 3, metadata := JNull,
       model := ''fallback''\<rparr>"

definition stored_database :: database where
  "stored_database = fresh_database\<lparr>table := [stored_row], next_id := 2\<rparr>"

lemma saveEmbedding_replace_example:
  "saveEmbedding plain_engine ''tool'' ''weather:getForecast''
     ''getForecast Get weather forecast'' [3 / 5, 4 / 5, 0] JNull ''fallback'' stored_database =
   (Inr replaced_row,
    stored_database\<lparr>table := [replaced_row],
      issued := [FindOneBy ''tool'' ''weather:getForecast'', SaveRow replaced_row]\<rparr>)"
  by (simp add: saveEmbedding_def findByContentIdentity_def save_def and_then_def query_def
      Let_def has_identity_def plain_engine_def stored_database_def fresh_database_def
      stored_row_def replaced_row_def)

theorem saveEmbedding_sets_dimensions_witness:
  "rows_have_ids stored_database \<and> dimensions_invariant stored_database \<and>
   dimensions replaced_row = length [3 / 5, 4 / 5, 0 :: real] \<and>
   find (has_identity ''tool'' ''weather:getForecast'')
     (table (stored_database\<lparr>table := [replaced_row],
        issued := [FindOneBy ''tool'' ''weather:getForecast'', SaveRow replaced_row]\<rparr>)) =
     Some replaced_row \<and>
   dimensions_invariant (stored_database\<lparr>table := [replaced_row],
        issued := [FindOneBy ''tool'' ''weather:getForecast'', SaveRow replaced_row]\<rparr>)"
proof -
  have a: "rows_have_ids stored_database"
    by (simp add: rows_have_ids_def stored_database_def fresh_database_def stored_row_def)
  have b: "dimensions_invariant stored_database"
    by (simp add: dimensions_invariant_def stored_database_def fresh_database_def stored_row_def)
  from saveEmbedding_sets_dimensions [OF saveEmbedding_replace_example a] a b
  show ?thesis by simp
qed

section \<open>Similarity search\<close>

record search_result =
  sr_embedding :: VectorEmbedding
  similarity :: jsnum

definition mapRawToEntity :: "VectorEmbedding \<Rightarrow> VectorEmbedding" where
  "mapRawToEntity raw =
     \<lparr>ve_id = ve_id raw, content_type = content_type raw, content_id = content_id raw,
      text_content = text_content raw, metadata = metadata raw, embedding = embedding raw,
      dimensions = dimensions raw, model = model raw\<rparr>"

text \<open>
  The arithmetic and the order of the database type \<open>float8\<close>, in which the query computes
  and compares: \<open>1 - x\<close>, and the order in which \<open>NaN\<close> is equal to itself and greater than
  every other value. \<open>pg_rank\<close> is the place of a value in \<open>ORDER BY ... DESC\<close>.
\<close>

definition one_minus :: "jsnum \<Rightarrow> jsnum" where
  "one_minus x =
     (case x of NaN \<Rightarrow> NaN | Finite a \<Rightarrow> Finite (1 - a) | PosInf \<Rightarrow> NegInf | NegInf \<Rightarrow> PosInf)"

fun pg_ge :: "jsnum \<Rightarrow> jsnum \<Rightarrow> bool" where
  "pg_ge NaN y = True"
| "pg_ge x NaN = False"
| "pg_ge PosInf y = True"
| "pg_ge x PosInf = False"
| "pg_ge x NegInf = True"
| "pg_ge NegInf y = False"
| "pg_ge (Finite a) (Finite b) = (a \<ge> b)"

definition pg_gt :: "jsnum \<Rightarrow> jsnum \<Rightarrow> bool" where
  "pg_gt x y = (\<not> pg_ge y x)"

definition pg_rank :: "jsnum \<Rightarrow> nat \<times> real" where
  "pg_rank x =
     (case x of NaN \<Rightarrow> (0, 0) | PosInf \<Rightarrow> (1, 0) | Finite a \<Rightarrow> (2, - a) | NegInf \<Rightarrow> (3, 0))"

text \<open>\<open>1 - (vector_embedding.embedding <=> :embedding)\<close>\<close>

definition similarity_to :: "engine \<Rightarrow> real list \<Rightarrow> VectorEmbedding \<Rightarrow> jsnum" where
  "similarity_to eng emb row = one_minus (distance eng (embedding row) emb)"

text \<open>The content-type condition, added only for a non-empty list of types.\<close>

definition content_type_in :: "string list option \<Rightarrow> VectorEmbedding \<Rightarrow> bool" where
  "content_type_in contentTypes row =
     (case contentTypes of
        None \<Rightarrow> True
      | Some cts \<Rightarrow> cts = [] \<or> content_type row \<in> set cts)"

text \<open>
  The query that \<open>searchSimilar\<close> builds, by the meaning of its clauses: \<open>WHERE\<close> keeps
  rows, \<open>ORDER BY similarity DESC\<close> sorts them, \<open>LIMIT\<close> cuts the list. The similarity
  comes back as text and \<open>parseFloat\<close> reads it, \<open>NaN\<close> and the infinities included.
\<close>

definition searchSimilar ::
  "engine \<Rightarrow> real list \<Rightarrow> nat \<Rightarrow> real \<Rightarrow> string list option \<Rightarrow> database \<Rightarrow>
   (error + search_result list) \<times> database" where
  "searchSimilar eng emb limit threshold contentTypes d =
     and_then (query eng (SimilarityQuery emb limit threshold contentTypes) d) (\<lambda>u d1.
       let selected = filter (\<lambda>row. pg_gt (similarity_to eng emb row) (Finite threshold) \<and>
                                    content_type_in contentTypes row) (table d1);
           ordered = sort_key (\<lambda>row. pg_rank (similarity_to eng emb row)) selected;
           results = take limit ordered
       in (Inr (map (\<lambda>row. \<lparr>sr_embedding = mapRawToEntity row,
                              similarity = similarity_to eng emb row\<rparr>) results), d1))"

lemma mapRawToEntity_id: "mapRawToEntity raw = raw"
  by (simp add: mapRawToEntity_def)

lemma pg_rank_le: "pg_rank x \<le> pg_rank y \<longleftrightarrow> pg_ge x y"
  by (cases x; cases y) (simp_all add: pg_rank_def)

lemma pg_gt_threshold:
  "pg_gt x (Finite t) \<longleftrightarrow> x = NaN \<or> x = PosInf \<or> (\<exists>a. x = Finite a \<and> a > t)"
  by (cases x) (auto simp: pg_gt_def)

lemma searchSimilar_ok:
  assumes "searchSimilar eng emb limit threshold cts d = (Inr rs, d')"
  shows "rs = map (\<lambda>row. \<lparr>sr_embedding = row, similarity = similarity_to eng emb row\<rparr>)
           (take limit (sort_key (\<lambda>row. pg_rank (similarity_to eng emb row))
              (filter (\<lambda>row. pg_gt (similarity_to eng emb row) (Finite threshold) \<and>
                              content_type_in cts row)
                 (table d))))"
  using assms
  by (auto simp: searchSimilar_def and_then_ok Let_def mapRawToEntity_id dest: query_table)

lemma sorted_desc_sort_key:
  "sorted_wrt pg_ge (map f (sort_key (\<lambda>x. pg_rank (f x)) xs))"
proof -
  have "sorted (map (\<lambda>x. pg_rank (f x)) (sort_key (\<lambda>x. pg_rank (f x)) xs))"
    by (rule sorted_sort_key)
  then show ?thesis
    by (simp add: sorted_wrt_map pg_rank_le)
qed

text \<open>
  C1 (as amended). A successful \<open>searchSimilar\<close> returns only stored records of a
  requested content type, each with its similarity \<open>1 - distance\<close> to the query, which is
  not a number (what a zero query vector gives), infinite, or a number strictly greater
  than the threshold; the results are in the descending order of the engine, which puts
  \<open>NaN\<close> first, and there are at most \<open>limit\<close> of them. The threshold filter is the same
  for every threshold, negative or not: a stored record that passes it is missing from
  the results only when the limit is reached, and a record that does not pass it, its
  similarity being at or below the threshold, is never returned.
\<close>

theorem searchSimilar_results:
  assumes "searchSimilar eng emb limit threshold contentTypes d = (Inr rs, d')"
  shows "(\<forall>r \<in> set rs. sr_embedding r \<in> set (table d) \<and>
            content_type_in contentTypes (sr_embedding r) \<and>
            similarity r = one_minus (distance eng (embedding (sr_embedding r)) emb) \<and>
            (similarity r = NaN \<or> similarity r = PosInf \<or>
             (\<exists>a. similarity r = Finite a \<and> a > threshold))) \<and>
         sorted_wrt pg_ge (map similarity rs) \<and>
         length rs \<le> limit \<and>
         (\<forall>row \<in> set (table d).
            pg_gt (one_minus (distance eng (embedding row) emb)) (Finite threshold) \<and>
            content_type_in contentTypes row \<longrightarrow>
              row \<in> sr_embedding ` set rs \<or> length rs = limit) \<and>
         (\<forall>row \<in> set (table d).
            \<not> pg_gt (one_minus (distance eng (embedding row) emb)) (Finite threshold) \<longrightarrow>
              row \<notin> sr_embedding ` set rs)"
proof -
  let ?sim = "similarity_to eng emb"
  let ?sel = "filter (\<lambda>row. pg_gt (?sim row) (Finite threshold) \<and>
                           content_type_in contentTypes row) (table d)"
  let ?ord = "sort_key (\<lambda>row. pg_rank (?sim row)) ?sel"
  let ?mk = "\<lambda>row. \<lparr>sr_embedding = row, similarity = ?sim row\<rparr>"
  from searchSimilar_ok [OF assms] have rs: "rs = map ?mk (take limit ?ord)" .
  have sub: "set (take limit ?ord) \<subseteq> set ?sel"
    using set_take_subset [of limit ?ord] by simp
  have 1: "\<forall>r \<in> set rs. sr_embedding r \<in> set (table d) \<and>
            content_type_in contentTypes (sr_embedding r) \<and>
            similarity r = one_minus (distance eng (embedding (sr_embedding r)) emb) \<and>
            (similarity r = NaN \<or> similarity r = PosInf \<or>
             (\<exists>a. similarity r = Finite a \<and> a > threshold))"
  proof
    fix r
    assume "r \<in> set rs"
    then obtain row where row: "row \<in> set (take limit ?ord)" and r: "r = ?mk row"
      by (auto simp: rs)
    from row sub have "row \<in> set (table d)" "content_type_in contentTypes row"
      "pg_gt (?sim row) (Finite threshold)" by auto
    then show "sr_embedding r \<in> set (table d) \<and>
            content_type_in contentTypes (sr_embedding r) \<and>
            similarity r = one_minus (distance eng (embedding (sr_embedding r)) emb) \<and>
            (similarity r = NaN \<or> similarity r = PosInf \<or>
             (\<exists>a. similarity r = Finite a \<and> a > threshold))"
      by (simp add: r similarity_to_def pg_gt_threshold)
  qed
  have "sorted_wrt pg_ge (map ?sim ?ord)" by (rule sorted_desc_sort_key)
  then have "sorted_wrt pg_ge (take limit (map ?sim ?ord))" by (rule sorted_wrt_take)
  then have 2: "sorted_wrt pg_ge (map similarity rs)"
    by (simp add: rs take_map comp_def)
  have 3: "length rs \<le> limit" by (simp add: rs)
  have 4: "row \<in> sr_embedding ` set rs \<or> length rs = limit"
    if "row \<in> set (table d)"
       "pg_gt (one_minus (distance eng (embedding row) emb)) (Finite threshold)"
       "content_type_in contentTypes row" for row
  proof (cases "length ?ord \<le> limit")
    case True
    then have "take limit ?ord = ?ord" by (rule take_all)
    moreover from that have "row \<in> set ?sel" by (simp add: similarity_to_def)
    ultimately have "row \<in> set (take limit ?ord)" by simp
    then have "row \<in> sr_embedding ` set rs" by (force simp: rs)
    then show ?thesis ..
  next
    case False
    then have "length rs = limit" by (simp add: rs)
    then show ?thesis ..
  qed
  have 5: "row \<notin> sr_embedding ` set rs"
    if "\<not> pg_gt (one_minus (distance eng (embedding row) emb)) (Finite threshold)" for row
  proof
    assume "row \<in> sr_embedding ` set rs"
    then have "row \<in> set (take limit ?ord)" by (force simp: rs)
    with sub have "pg_gt (?sim row) (Finite threshold)" by auto
    with that show False by (simp add: similarity_to_def)
  qed
  from 1 2 3 4 5 show ?thesis by blast
qed

text \<open>
  The claim as stated fails in two ways. For a negative threshold: a record whose vector
  points away from the query has the similarity \<open>-1\<close>, and the threshold \<open>-1/2\<close> excludes
  it. For the zero query vector and the threshold \<open>-1\<close>, with which
  \<open>getAllVectorizedTools\<close> lists all tools: every similarity is \<open>NaN\<close>, which is no number
  above the threshold, and every record is returned.
\<close>

definition opposite_row :: VectorEmbedding where
  "opposite_row =
     \<lparr>ve_id = Some 3, content_type = ''tool'', content_id = ''s:opposite'',
      text_content = ''opposite'', metadata = JNull, embedding = [-1, 0], dimensions = 2,
      model = ''fallback''\<rparr>"

definition aligned_row :: VectorEmbedding where
  "aligned_row =
     \<lparr>ve_id = Some 1, content_type = ''tool'', content_id = ''s:aligned'',
      text_content = ''aligned'', metadata = JNull, embedding = [1, 0], dimensions = 2,
      model = ''fallback''\<rparr>"

definition orthogonal_row :: VectorEmbedding where
  "orthogonal_row =
     \<lparr>ve_id = Some 2, content_type = ''tool'', content_id = ''s:orthogonal'',
      text_content = ''orthogonal'', metadata = JNull, embedding = [0, 1], dimensions = 2,
      model = ''fallback''\<rparr>"

definition three_rows_database :: database where
  "three_rows_database =
     fresh_database\<lparr>table := [orthogonal_row, opposite_row, aligned_row], next_id := 4\<rparr>"

lemma similarity_examples:
  "similarity_to plain_engine [1, 0] aligned_row = Finite 1"
  "similarity_to plain_engine [1, 0] orthogonal_row = Finite 0"
  "similarity_to plain_engine [1, 0] opposite_row = Finite (- 1)"
  "similarity_to plain_engine [0, 0] aligned_row = NaN"
  "similarity_to plain_engine [0, 0] orthogonal_row = NaN"
  "similarity_to plain_engine [0, 0] opposite_row = NaN"
  by (simp_all add: similarity_to_def one_minus_def plain_engine_def cosine_distance_def dot_def
      aligned_row_def orthogonal_row_def opposite_row_def)

lemma plain_engine_refuses: "refuses plain_engine s = None"
  by (simp add: plain_engine_def)

lemma searchSimilar_example:
  "searchSimilar plain_engine [1, 0] 10 (- 1 / 2) None three_rows_database =
     (Inr [\<lparr>sr_embedding = aligned_row, similarity = Finite 1\<rparr>,
           \<lparr>sr_embedding = orthogonal_row, similarity = Finite 0\<rparr>],
      three_rows_database\<lparr>issued := [SimilarityQuery [1, 0] 10 (- 1 / 2) None]\<rparr>)"
  by (simp add: searchSimilar_def and_then_def query_def Let_def similarity_examples
      content_type_in_def mapRawToEntity_id three_rows_database_def fresh_database_def
      plain_engine_refuses pg_gt_def pg_rank_def)

lemma searchSimilar_zero_vector_example:
  "searchSimilar plain_engine [0, 0] 1000 (- 1) (Some [''tool'']) three_rows_database =
     (Inr [\<lparr>sr_embedding = orthogonal_row, similarity = NaN\<rparr>,
           \<lparr>sr_embedding = opposite_row, similarity = NaN\<rparr>,
           \<lparr>sr_embedding = aligned_row, similarity = NaN\<rparr>],
      three_rows_database\<lparr>issued := [SimilarityQuery [0, 0] 1000 (- 1) (Some [''tool''])]\<rparr>)"
  by (simp add: searchSimilar_def and_then_def query_def Let_def similarity_examples
      content_type_in_def mapRawToEntity_id three_rows_database_def fresh_database_def
      plain_engine_refuses pg_gt_def pg_rank_def)
     (simp add: orthogonal_row_def opposite_row_def aligned_row_def)

theorem searchSimilar_negative_threshold_counterexample:
  "(- 1 / 2 :: real) < 0 \<and> opposite_row \<in> set (table three_rows_database) \<and>
   content_type_in None opposite_row \<and> length (table three_rows_database) \<le> 10 \<and>
   (\<exists>rs d'. searchSimilar plain_engine [1, 0] 10 (- 1 / 2) None three_rows_database
              = (Inr rs, d') \<and> opposite_row \<notin> sr_embedding ` set rs) \<and>
   (\<exists>rs d'. searchSimilar plain_engine [0, 0] 1000 (- 1) (Some [''tool'']) three_rows_database
              = (Inr rs, d') \<and> map similarity rs = [NaN, NaN, NaN]) \<and>
   \<not> (\<exists>a. NaN = Finite a \<and> a > - 1)"
proof -
  have "opposite_row \<noteq> aligned_row" "opposite_row \<noteq> orthogonal_row"
    by (simp_all add: opposite_row_def aligned_row_def orthogonal_row_def)
  then have "opposite_row \<notin> sr_embedding `
      set [\<lparr>sr_embedding = aligned_row, similarity = Finite 1\<rparr>,
           \<lparr>sr_embedding = orthogonal_row, similarity = Finite 0\<rparr>]"
    by simp
  with searchSimilar_example searchSimilar_zero_vector_example show ?thesis
    by (simp add: three_rows_database_def content_type_in_def)
qed

theorem searchSimilar_results_witness:
  "sorted_wrt pg_ge (map similarity
      [\<lparr>sr_embedding = aligned_row, similarity = Finite 1\<rparr>,
       \<lparr>sr_embedding = orthogonal_row, similarity = Finite 0\<rparr>]) \<and>
   orthogonal_row \<in> set (table three_rows_database) \<and>
   pg_gt (one_minus (distance plain_engine (embedding orthogonal_row) [1, 0])) (Finite (- 1 / 2)) \<and>
   orthogonal_row \<in> sr_embedding `
      set [\<lparr>sr_embedding = aligned_row, similarity = Finite 1\<rparr>,
           \<lparr>sr_embedding = orthogonal_row, similarity = Finite 0\<rparr>] \<and>
   opposite_row \<in> set (table three_rows_database) \<and>
   \<not> pg_gt (one_minus (distance plain_engine (embedding opposite_row) [1, 0])) (Finite (- 1 / 2)) \<and>
   opposite_row \<notin> sr_embedding `
      set [\<lparr>sr_embedding = aligned_row, similarity = Finite 1\<rparr>,
           \<lparr>sr_embedding = orthogonal_row, similarity = Finite 0\<rparr>]"
proof -
  have a: "orthogonal_row \<in> set (table three_rows_database)"
    "opposite_row \<in> set (table three_rows_database)"
    by (simp_all add: three_rows_database_def)
  have b: "pg_gt (one_minus (distance plain_engine (embedding orthogonal_row) [1, 0]))
             (Finite (- 1 / 2))"
    using similarity_examples(2) by (simp add: similarity_to_def pg_gt_def)
  have c: "content_type_in None orthogonal_row" by (simp add: content_type_in_def)
  have d: "\<not> pg_gt (one_minus (distance plain_engine (embedding opposite_row) [1, 0]))
             (Finite (- 1 / 2))"
    using similarity_examples(3) by (simp add: similarity_to_def pg_gt_def)
  have e: "length [\<lparr>sr_embedding = aligned_row, similarity = Finite 1\<rparr>,
                   \<lparr>sr_embedding = orthogonal_row, similarity = Finite 0\<rparr>] \<noteq> 10"
    by simp
  from searchSimilar_results [OF searchSimilar_example] a b c d e
  show ?thesis by blast
qed

section \<open>The search orchestrator\<close>

text \<open>
  What the orchestrator reads from its surroundings: the global flag
  \<open>DbConfig.getConfig().enabled\<close> behind \<open>shouldUseDatabase\<close>, the database engine, the
  embedding provider, and \<open>JSON.parse\<close> (which throws on a text that is not JSON).
\<close>

record env =
  enabled :: bool
  eng :: engine
  prov :: provider
  JSON_parse :: "string \<Rightarrow> error + jsval"

definition shouldUseDatabase :: "env \<Rightarrow> bool" where
  "shouldUseDatabase e = enabled e"

text \<open>Truthiness, property access, \<open>typeof v === 'object'\<close> and \<open>Array.prototype.includes\<close>.\<close>

definition truthy :: "jsval \<Rightarrow> bool" where
  "truthy v =
     (case v of
        JUndefined \<Rightarrow> False | JNull \<Rightarrow> False | JBool b \<Rightarrow> b | JNum x \<Rightarrow> x \<noteq> 0
      | JStr s \<Rightarrow> s \<noteq> [] | JArr xs \<Rightarrow> True | JObj kvs \<Rightarrow> True)"

definition get_prop :: "jsval \<Rightarrow> string \<Rightarrow> error + jsval" where
  "get_prop v k =
     (case v of
        JUndefined \<Rightarrow> Inl (Error ''Cannot read properties of undefined'')
      | JNull \<Rightarrow> Inl (Error ''Cannot read properties of null'')
      | JObj kvs \<Rightarrow> Inr (case map_of kvs k of None \<Rightarrow> JUndefined | Some x \<Rightarrow> x)
      | _ \<Rightarrow> Inr JUndefined)"

definition is_object :: "jsval \<Rightarrow> bool" where
  "is_object v = (case v of JNull \<Rightarrow> True | JArr xs \<Rightarrow> True | JObj kvs \<Rightarrow> True | _ \<Rightarrow> False)"

definition array_includes :: "string list \<Rightarrow> jsval \<Rightarrow> bool" where
  "array_includes names v = (case v of JStr s \<Rightarrow> s \<in> set names | _ \<Rightarrow> False)"

record tool_result =
  tr_serverName :: jsval
  tr_toolName :: jsval
  tr_description :: jsval
  tr_inputSchema :: jsval
  tr_similarity :: jsnum
  searchableText :: string

text \<open>The callback of \<open>results.filter\<close> for a non-empty list of server names.\<close>

definition server_filter :: "env \<Rightarrow> string list \<Rightarrow> search_result \<Rightarrow> bool" where
  "server_filter e serverNames result =
     (case metadata (sr_embedding result) of
        JStr s \<Rightarrow>
          (case JSON_parse e s of
             Inl err \<Rightarrow> False
           | Inr parsedMetadata \<Rightarrow>
               (case get_prop parsedMetadata ''serverName'' of
                  Inl err \<Rightarrow> False
                | Inr v \<Rightarrow> array_includes serverNames v))
      | _ \<Rightarrow> False)"

text \<open>The first branch of the callback of \<open>filteredResults.map\<close>: structured metadata.\<close>

definition structured_result :: "env \<Rightarrow> search_result \<Rightarrow> tool_result option" where
  "structured_result e result =
     (case metadata (sr_embedding result) of
        JStr s \<Rightarrow>
          (if s = [] then None
           else
             (case JSON_parse e s of
                Inl err \<Rightarrow> None
              | Inr parsedMetadata \<Rightarrow>
                  (case (get_prop parsedMetadata ''serverName'', get_prop parsedMetadata ''toolName'',
                         get_prop parsedMetadata ''description'', get_prop parsedMetadata ''inputSchema'') of
                     (Inr sn, Inr tn, Inr ds, Inr sch) \<Rightarrow>
                       (if truthy sn \<and> truthy tn
                        then Some \<lparr>tr_serverName = sn, tr_toolName = tn,
                                   tr_description = (if truthy ds then ds else JStr []),
                                   tr_inputSchema = (if truthy sch then sch else JObj []),
                                   tr_similarity = similarity result,
                                   searchableText = text_content (sr_embedding result)\<rparr>
                        else None)
                   | _ \<Rightarrow> None)))
      | _ \<Rightarrow> None)"

text \<open>
  The second branch: the tool is read out of \<open>text_content\<close>. \<open>first_word\<close> is group 1 of
  \<open>/^(\S+)/\<close> (empty without a match), \<open>server_prefix\<close> is group 1 of \<open>/^([^_]+)_/\<close> or
  \<open>'unknown'\<close>, \<open>strip_first_word\<close> is \<open>replace(/^\S+\s*/, '')\<close>.
\<close>

definition first_word :: "string \<Rightarrow> string" where
  "first_word textContent = takeWhile (\<lambda>c. \<not> is_space c) textContent"

definition server_prefix :: "string \<Rightarrow> string" where
  "server_prefix toolName =
     (let p = takeWhile (\<lambda>c. c \<noteq> CHR ''_'') toolName
      in if p \<noteq> [] \<and> length p < length toolName then p else ''unknown'')"

definition strip_first_word :: "string \<Rightarrow> string" where
  "strip_first_word textContent =
     (if first_word textContent = [] then textContent
      else dropWhile is_space (dropWhile (\<lambda>c. \<not> is_space c) textContent))"

definition trim :: "string \<Rightarrow> string" where
  "trim s = rev (dropWhile is_space (rev (dropWhile is_space s)))"

definition heuristic_result :: "search_result \<Rightarrow> tool_result" where
  "heuristic_result result =
     (let textContent = text_content (sr_embedding result);
          toolName = first_word textContent;
          serverName = server_prefix toolName;
          description = trim (strip_first_word textContent)
      in \<lparr>tr_serverName = JStr serverName, tr_toolName = JStr toolName,
          tr_description = JStr description, tr_inputSchema = JObj [],
          tr_similarity = similarity result, searchableText = textContent\<rparr>)"

definition to_tool_result :: "env \<Rightarrow> search_result \<Rightarrow> tool_result" where
  "to_tool_result e result =
     (case structured_result e result of Some r \<Rightarrow> r | None \<Rightarrow> heuristic_result result)"

text \<open>
  \<open>searchByText\<close> catches a throw of the embedding function and returns no result. The
  promise of \<open>searchSimilar\<close> is returned without \<open>await\<close>, so its rejection passes to the
  caller.
\<close>

definition searchByText ::
  "engine \<Rightarrow> string \<Rightarrow> (string \<Rightarrow> error + real list) \<Rightarrow> nat \<Rightarrow> real \<Rightarrow> string list option \<Rightarrow>
   database \<Rightarrow> (error + search_result list) \<times> database" where
  "searchByText en text getEmbeddingFunc limit threshold contentTypes d =
     (case getEmbeddingFunc text of
        Inl err \<Rightarrow> (Inr [], d)
      | Inr emb \<Rightarrow> searchSimilar en emb limit threshold contentTypes d)"

definition searchToolsByVector_try ::
  "env \<Rightarrow> string \<Rightarrow> nat \<Rightarrow> real \<Rightarrow> string list option \<Rightarrow> database \<Rightarrow>
   (error + tool_result list) \<times> database" where
  "searchToolsByVector_try e qry limit threshold serverNames d =
     and_then
       (searchByText (eng e) qry (\<lambda>t. Inr (generateEmbedding (prov e) t)) limit threshold
          (Some [''tool'']) d)
       (\<lambda>results d1.
          let filteredResults =
                (case serverNames of
                   None \<Rightarrow> results
                 | Some names \<Rightarrow>
                     (if names \<noteq> [] then filter (server_filter e names) results else results))
          in (Inr (map (to_tool_result e) filteredResults), d1))"

definition searchToolsByVector ::
  "env \<Rightarrow> string \<Rightarrow> nat \<Rightarrow> real \<Rightarrow> string list option \<Rightarrow> database \<Rightarrow>
   (error + tool_result list) \<times> database" where
  "searchToolsByVector e qry limit threshold serverNames d =
     (if \<not> shouldUseDatabase e then (Inr [], d)
      else
        (case searchToolsByVector_try e qry limit threshold serverNames d of
           (Inl err, d') \<Rightarrow> (Inr [], d')
         | (Inr rs, d') \<Rightarrow> (Inr rs, d')))"

section \<open>Properties of the search orchestrator\<close>

lemma query_refused:
  "refuses en s = Some msg \<Longrightarrow> query en s d = (Inl (Error msg), d\<lparr>issued := issued d @ [s]\<rparr>)"
  by (simp add: query_def)

lemma searchSimilar_refused:
  "refuses en (SimilarityQuery emb limit threshold cts) = Some msg \<Longrightarrow>
   fst (searchSimilar en emb limit threshold cts d) = Inl (Error msg)"
  by (simp add: searchSimilar_def and_then_def query_refused)

text \<open>
  C8. \<open>searchToolsByVector\<close> always returns a list, never an error. It returns the empty
  list when the query of the repository is refused by the engine, and whenever anything
  inside its \<open>try\<close> block throws; and \<open>searchByText\<close> returns the empty list when the
  embedding function it is given throws.
\<close>

theorem searchToolsByVector_never_throws:
  "(\<exists>rs d'. searchToolsByVector e qry limit threshold serverNames d = (Inr rs, d')) \<and>
   (\<forall>msg. refuses (eng e)
            (SimilarityQuery (generateEmbedding (prov e) qry) limit threshold (Some [''tool'']))
            = Some msg \<longrightarrow>
      fst (searchToolsByVector e qry limit threshold serverNames d) = Inr []) \<and>
   (\<forall>err. fst (searchToolsByVector_try e qry limit threshold serverNames d) = Inl err \<longrightarrow>
      fst (searchToolsByVector e qry limit threshold serverNames d) = Inr []) \<and>
   (\<forall>f err. f qry = Inl err \<longrightarrow>
      searchByText (eng e) qry f limit threshold (Some [''tool'']) d = (Inr [], d))"
proof (intro conjI allI impI)
  show "\<exists>rs d'. searchToolsByVector e qry limit threshold serverNames d = (Inr rs, d')"
    by (cases "searchToolsByVector_try e qry limit threshold serverNames d")
       (auto simp: searchToolsByVector_def split: sum.splits)
next
  fix msg
  assume r: "refuses (eng e)
      (SimilarityQuery (generateEmbedding (prov e) qry) limit threshold (Some [''tool''])) = Some msg"
  have "fst (searchToolsByVector_try e qry limit threshold serverNames d) = Inl (Error msg)"
    using searchSimilar_refused [OF r, of d]
    by (cases "searchSimilar (eng e) (generateEmbedding (prov e) qry) limit threshold
                 (Some [''tool'']) d")
       (simp add: searchToolsByVector_try_def searchByText_def and_then_def)
  then show "fst (searchToolsByVector e qry limit threshold serverNames d) = Inr []"
    by (cases "searchToolsByVector_try e qry limit threshold serverNames d")
       (simp add: searchToolsByVector_def)
next
  fix err
  assume "fst (searchToolsByVector_try e qry limit threshold serverNames d) = Inl err"
  then show "fst (searchToolsByVector e qry limit threshold serverNames d) = Inr []"
    by (cases "searchToolsByVector_try e qry limit threshold serverNames d")
       (simp add: searchToolsByVector_def)
next
  fix f :: "string \<Rightarrow> error + real list" and err
  assume "f qry = Inl err"
  then show "searchByText (eng e) qry f limit threshold (Some [''tool'']) d = (Inr [], d)"
    by (simp add: searchByText_def)
qed

text \<open>An engine that has lost its connection when the similarity query arrives.\<close>

definition disconnected_engine :: engine where
  "disconnected_engine =
     \<lparr>refuses = (\<lambda>s. case s of SimilarityQuery emb limit threshold cts \<Rightarrow> Some ''connection lost''
                       | _ \<Rightarrow> None),
      typmod_of = (\<lambda>n. int n + 4), distance = cosine_distance\<rparr>"

definition disconnected_env :: env where
  "disconnected_env =
     \<lparr>enabled = True, eng = disconnected_engine, prov = offline_provider,
      JSON_parse = (\<lambda>s. Inl (Error ''Unexpected token''))\<rparr>"

theorem searchToolsByVector_never_throws_witness:
  "refuses (eng disconnected_env)
     (SimilarityQuery (generateEmbedding (prov disconnected_env) ''weather forecast'') 5 (1 / 10)
        (Some [''tool''])) = Some ''connection lost'' \<and>
   fst (searchToolsByVector_try disconnected_env ''weather forecast'' 5 (1 / 10) None
          three_rows_database) = Inl (Error ''connection lost'') \<and>
   fst (searchToolsByVector disconnected_env ''weather forecast'' 5 (1 / 10) None
          three_rows_database) = Inr [] \<and>
   searchByText (eng disconnected_env) ''weather forecast''
     (\<lambda>t. Inl (Error ''no embedding'')) 5 (1 / 10) (Some [''tool'']) three_rows_database =
     (Inr [], three_rows_database)"
proof -
  have a: "refuses (eng disconnected_env)
     (SimilarityQuery (generateEmbedding (prov disconnected_env) ''weather forecast'') 5 (1 / 10)
        (Some [''tool''])) = Some ''connection lost''"
    by (simp add: disconnected_env_def disconnected_engine_def)
  have b: "fst (searchToolsByVector_try disconnected_env ''weather forecast'' 5 (1 / 10) None
          three_rows_database) = Inl (Error ''connection lost'')"
    using searchSimilar_refused [OF a, of three_rows_database]
    by (cases "searchSimilar (eng disconnected_env)
                 (generateEmbedding (prov disconnected_env) ''weather forecast'') 5 (1 / 10)
                 (Some [''tool'']) three_rows_database")
       (simp add: searchToolsByVector_try_def searchByText_def and_then_def)
  note t = searchToolsByVector_never_throws
    [of disconnected_env "''weather forecast''" 5 "1 / 10" None three_rows_database]
  from t a have c: "fst (searchToolsByVector disconnected_env ''weather forecast'' 5 (1 / 10) None
          three_rows_database) = Inr []"
    by blast
  from t have "\<And>f err. f ''weather forecast'' = Inl err \<Longrightarrow>
      searchByText (eng disconnected_env) ''weather forecast'' f 5 (1 / 10) (Some [''tool''])
        three_rows_database = (Inr [], three_rows_database)"
    by blast
  from this [of "\<lambda>t. Inl (Error ''no embedding'')" "Error ''no embedding''"]
  have d: "searchByText (eng disconnected_env) ''weather forecast''
     (\<lambda>t. Inl (Error ''no embedding'')) 5 (1 / 10) (Some [''tool'']) three_rows_database =
     (Inr [], three_rows_database)"
    by simp
  from a b c d show ?thesis by simp
qed

lemma server_filter_iff:
  "server_filter e names h \<longleftrightarrow>
   (\<exists>s pm n. metadata (sr_embedding h) = JStr s \<and> JSON_parse e s = Inr pm \<and>
              get_prop pm ''serverName'' = Inr (JStr n) \<and> n \<in> set names)"
  by (auto simp: server_filter_def array_includes_def split: jsval.splits sum.splits)

lemma to_tool_result_keeps:
  "tr_similarity (to_tool_result e h) = similarity h \<and>
   searchableText (to_tool_result e h) = text_content (sr_embedding h)"
  by (auto simp: to_tool_result_def structured_result_def heuristic_result_def Let_def
      split: option.splits jsval.splits sum.splits if_splits)

text \<open>
  C10. With a non-empty list of server names, the results of \<open>searchToolsByVector\<close> are
  the transformed hits of the repository whose metadata is a string that \<open>JSON.parse\<close>
  accepts and whose parsed \<open>serverName\<close> is one of the names: a hit whose metadata is not
  a string, or does not parse, is left out whatever its similarity. Without the list
  every hit is returned, transformed (from its text when the metadata gives nothing),
  with its similarity and its text.
\<close>

theorem server_filter_needs_parsable_metadata:
  assumes "shouldUseDatabase e"
    and "searchByText (eng e) qry (\<lambda>t. Inr (generateEmbedding (prov e) t)) limit threshold
           (Some [''tool'']) d = (Inr hits, d1)"
    and "names \<noteq> []"
  shows "searchToolsByVector e qry limit threshold (Some names) d =
           (Inr (map (to_tool_result e)
                  (filter (\<lambda>h. \<exists>s pm n. metadata (sr_embedding h) = JStr s \<and>
                                  JSON_parse e s = Inr pm \<and>
                                  get_prop pm ''serverName'' = Inr (JStr n) \<and> n \<in> set names)
                     hits)), d1) \<and>
         searchToolsByVector e qry limit threshold None d = (Inr (map (to_tool_result e) hits), d1) \<and>
         (\<forall>h. tr_similarity (to_tool_result e h) = similarity h \<and>
              searchableText (to_tool_result e h) = text_content (sr_embedding h))"
proof -
  have f: "filter (server_filter e names) hits =
           filter (\<lambda>h. \<exists>s pm n. metadata (sr_embedding h) = JStr s \<and>
                                  JSON_parse e s = Inr pm \<and>
                                  get_prop pm ''serverName'' = Inr (JStr n) \<and> n \<in> set names) hits"
    by (rule filter_cong) (simp_all add: server_filter_iff)
  from assms have "searchToolsByVector e qry limit threshold (Some names) d =
      (Inr (map (to_tool_result e) (filter (server_filter e names) hits)), d1)"
    by (simp add: searchToolsByVector_def searchToolsByVector_try_def and_then_def)
  moreover from assms have "searchToolsByVector e qry limit threshold None d =
      (Inr (map (to_tool_result e) hits), d1)"
    by (simp add: searchToolsByVector_def searchToolsByVector_try_def and_then_def)
  ultimately show ?thesis using f to_tool_result_keeps by simp
qed

text \<open>Three stored tools: metadata as JSON text, as an object, and as broken text.\<close>

definition forecast_metadata :: string where
  \<open>forecast_metadata = ''{"serverName":"weather","toolName":"getForecast"}''\<close>

definition parse_examples :: "string \<Rightarrow> error + jsval" where
  "parse_examples s =
     (if s = forecast_metadata
      then Inr (JObj [(''serverName'', JStr ''weather''), (''toolName'', JStr ''getForecast'')])
      else Inl (Error ''Unexpected token''))"

definition json_row :: VectorEmbedding where
  "json_row =
     \<lparr>ve_id = Some 1, content_type = ''tool'', content_id = ''weather:getForecast'',
      text_content = ''getForecast Get weather forecast'', metadata = JStr forecast_metadata,
      embedding = [1, 0], dimensions = 2, model = ''fallback''\<rparr>"

definition object_row :: VectorEmbedding where
  "object_row =
     \<lparr>ve_id = Some 2, content_type = ''tool'', content_id = ''weather:weather_getAlerts'',
      text_content = ''weather_getAlerts List weather alerts'',
      metadata = JObj [(''serverName'', JStr ''weather''), (''toolName'', JStr ''weather_getAlerts'')],
      embedding = [0, 1], dimensions = 2, model = ''fallback''\<rparr>"

definition broken_row :: VectorEmbedding where
  "broken_row =
     \<lparr>ve_id = Some 3, content_type = ''tool'', content_id = ''weather:maps_route'',
      text_content = ''maps_route  Plan a route '', metadata = JStr ''{broken'',
      embedding = [1, 1], dimensions = 2, model = ''fallback''\<rparr>"

definition tools_database :: database where
  "tools_database = fresh_database\<lparr>table := [json_row, object_row, broken_row], next_id := 4\<rparr>"

text \<open>An engine for which every stored vector is at the distance 1/2 from every query.\<close>

definition uniform_env :: env where
  "uniform_env =
     \<lparr>enabled = True,
      eng = \<lparr>refuses = (\<lambda>s. None), typmod_of = (\<lambda>n. int n + 4),
             distance = (\<lambda>a b. Finite (1 / 2))\<rparr>,
      prov = offline_provider, JSON_parse = parse_examples\<rparr>"

definition tools_hits :: "search_result list" where
  "tools_hits =
     [\<lparr>sr_embedding = json_row, similarity = Finite (1 / 2)\<rparr>,
      \<lparr>sr_embedding = object_row, similarity = Finite (1 / 2)\<rparr>,
      \<lparr>sr_embedding = broken_row, similarity = Finite (1 / 2)\<rparr>]"

definition tools_database_after :: database where
  "tools_database_after =
     tools_database\<lparr>issued :=
       [SimilarityQuery (generateEmbedding offline_provider ''forecast'') 10 (1 / 10)
          (Some [''tool''])]\<rparr>"

lemma tools_hits_found:
  "searchByText (eng uniform_env) ''forecast''
     (\<lambda>t. Inr (generateEmbedding (prov uniform_env) t)) 10 (1 / 10) (Some [''tool''])
     tools_database = (Inr tools_hits, tools_database_after)"
  by (simp add: searchByText_def searchSimilar_def and_then_def query_def Let_def
      similarity_to_def one_minus_def pg_gt_def pg_rank_def content_type_in_def
      mapRawToEntity_id uniform_env_def tools_database_def tools_database_after_def
      fresh_database_def tools_hits_def json_row_def object_row_def broken_row_def)

lemma tools_filtered:
  "filter (server_filter uniform_env [''weather'']) tools_hits =
     [\<lparr>sr_embedding = json_row, similarity = Finite (1 / 2)\<rparr>]"
  by (simp add: server_filter_def array_includes_def get_prop_def tools_hits_def uniform_env_def
      parse_examples_def forecast_metadata_def json_row_def object_row_def broken_row_def)

lemma tools_transformed:
  "map (to_tool_result uniform_env) tools_hits =
     [\<lparr>tr_serverName = JStr ''weather'', tr_toolName = JStr ''getForecast'',
       tr_description = JStr [], tr_inputSchema = JObj [], tr_similarity = Finite (1 / 2),
       searchableText = ''getForecast Get weather forecast''\<rparr>,
      \<lparr>tr_serverName = JStr ''weather'', tr_toolName = JStr ''weather_getAlerts'',
       tr_description = JStr ''List weather alerts'', tr_inputSchema = JObj [],
       tr_similarity = Finite (1 / 2),
       searchableText = ''weather_getAlerts List weather alerts''\<rparr>,
      \<lparr>tr_serverName = JStr ''maps'', tr_toolName = JStr ''maps_route'',
       tr_description = JStr ''Plan a route'', tr_inputSchema = JObj [],
       tr_similarity = Finite (1 / 2), searchableText = ''maps_route  Plan a route ''\<rparr>]"
  by (simp add: to_tool_result_def structured_result_def heuristic_result_def Let_def
      get_prop_def truthy_def first_word_def server_prefix_def strip_first_word_def trim_def
      is_space_def tools_hits_def uniform_env_def parse_examples_def forecast_metadata_def
      json_row_def object_row_def broken_row_def)

theorem server_filter_needs_parsable_metadata_witness:
  "shouldUseDatabase uniform_env \<and>
   searchToolsByVector uniform_env ''forecast'' 10 (1 / 10) (Some [''weather'']) tools_database =
     (Inr [\<lparr>tr_serverName = JStr ''weather'', tr_toolName = JStr ''getForecast'',
            tr_description = JStr [], tr_inputSchema = JObj [], tr_similarity = Finite (1 / 2),
            searchableText = ''getForecast Get weather forecast''\<rparr>], tools_database_after) \<and>
   searchToolsByVector uniform_env ''forecast'' 10 (1 / 10) None tools_database =
     (Inr (map (to_tool_result uniform_env) tools_hits), tools_database_after) \<and>
   length (map (to_tool_result uniform_env) tools_hits) = 3"
proof -
  have a: "shouldUseDatabase uniform_env"
    by (simp add: shouldUseDatabase_def uniform_env_def)
  have n: "[''weather''] \<noteq> ([] :: string list)" by simp
  have "filter (\<lambda>h. \<exists>s pm n. metadata (sr_embedding h) = JStr s \<and>
                         JSON_parse uniform_env s = Inr pm \<and>
                         get_prop pm ''serverName'' = Inr (JStr n) \<and> n \<in> set [''weather''])
             tools_hits = filter (server_filter uniform_env [''weather'']) tools_hits"
    by (rule filter_cong [OF refl]) (simp only: server_filter_iff)
  with tools_filtered
  have f: "filter (\<lambda>h. \<exists>s pm n. metadata (sr_embedding h) = JStr s \<and>
                         JSON_parse uniform_env s = Inr pm \<and>
                         get_prop pm ''serverName'' = Inr (JStr n) \<and> n \<in> set [''weather''])
             tools_hits = [\<lparr>sr_embedding = json_row, similarity = Finite (1 / 2)\<rparr>]"
    by (simp only:)
  have m: "map (to_tool_result uniform_env)
             [\<lparr>sr_embedding = json_row, similarity = Finite (1 / 2)\<rparr>] =
      [\<lparr>tr_serverName = JStr ''weather'', tr_toolName = JStr ''getForecast'',
        tr_description = JStr [], tr_inputSchema = JObj [], tr_similarity = Finite (1 / 2),
        searchableText = ''getForecast Get weather forecast''\<rparr>]"
    using tools_transformed by (simp add: tools_hits_def)
  have l: "length (map (to_tool_result uniform_env) tools_hits) = 3"
    by (simp add: tools_hits_def)
  note t = server_filter_needs_parsable_metadata [OF a tools_hits_found n, unfolded f m]
  from t have t1: "searchToolsByVector uniform_env ''forecast'' 10 (1 / 10) (Some [''weather''])
      tools_database =
     (Inr [\<lparr>tr_serverName = JStr ''weather'', tr_toolName = JStr ''getForecast'',
            tr_description = JStr [], tr_inputSchema = JObj [], tr_similarity = Finite (1 / 2),
            searchableText = ''getForecast Get weather forecast''\<rparr>], tools_database_after)"
    by (rule conjunct1)
  from t have t2: "searchToolsByVector uniform_env ''forecast'' 10 (1 / 10) None tools_database =
     (Inr (map (to_tool_result uniform_env) tools_hits), tools_database_after)"
    by (simp only:)
  from a t1 t2 l show ?thesis by (simp only: simp_thms)
qed

section \<open>Batch ingestion\<close>

record ToolInfo =
  tool_name :: string
  tool_description :: string
  tool_inputSchema :: jsval

text \<open>Decimal digits of an array index, for \<open>Object.keys\<close> of an array.\<close>

fun show_nat :: "nat \<Rightarrow> string" where
  "show_nat n =
     (if n < 10 then [char_of (48 + n)] else show_nat (n div 10) @ [char_of (48 + n mod 10)])"

declare show_nat.simps [simp del]

text \<open>
  \<open>Object.keys\<close>: the keys that are array indices (the decimal numeral, without a leading
  zero, of a number below \<open>2^32 - 1\<close>) in ascending order, then the other keys in the
  order in which they were first added.
\<close>

definition is_array_index :: "string \<Rightarrow> bool" where
  "is_array_index k =
     (k \<noteq> [] \<and> list_all is_digit k \<and> (k = ''0'' \<or> hd k \<noteq> CHR ''0'') \<and>
      decimal_value k < 2 ^ 32 - 1)"

definition object_keys :: "jsval \<Rightarrow> string list" where
  "object_keys v =
     (case v of
        JObj kvs \<Rightarrow>
          (let keys = rev (remdups (rev (map fst kvs)))
           in sort_key decimal_value (filter is_array_index keys) @
              filter (\<lambda>k. \<not> is_array_index k) keys)
      | JArr xs \<Rightarrow> map show_nat [0..<length xs]
      | _ \<Rightarrow> [])"

fun join_with :: "string \<Rightarrow> string list \<Rightarrow> string" where
  "join_with sep [] = []"
| "join_with sep [x] = x"
| "join_with sep (x # y # ys) = x @ sep @ join_with sep (y # ys)"

text \<open>The searchable text of a tool: name, description and the names in its schema.\<close>

definition make_searchableText :: "ToolInfo \<Rightarrow> string" where
  "make_searchableText tool =
     (let schema = tool_inputSchema tool;
          properties = (case get_prop schema ''properties'' of Inr v \<Rightarrow> v | Inl err \<Rightarrow> JUndefined)
      in join_with '' ''
           (filter (\<lambda>s. s \<noteq> [])
              ([tool_name tool, tool_description tool] @
               (if truthy schema \<and> is_object schema
                then filter (\<lambda>key. key \<noteq> ''type'' \<and> key \<noteq> ''properties'') (object_keys schema)
                else []) @
               (if truthy schema \<and> truthy properties \<and> is_object properties
                then object_keys properties else []))))"

definition tool_metadata :: "string \<Rightarrow> ToolInfo \<Rightarrow> jsval" where
  "tool_metadata serverName tool =
     JObj [(''serverName'', JStr serverName), (''toolName'', JStr (tool_name tool)),
           (''description'', JStr (tool_description tool)),
           (''inputSchema'', tool_inputSchema tool)]"

definition tool_content_id :: "string \<Rightarrow> ToolInfo \<Rightarrow> string" where
  "tool_content_id serverName tool = serverName @ '':'' @ tool_name tool"

text \<open>
  The newer revision: the inner \<open>try\<close> block of the loop (embed, reconcile the schema,
  save), whose \<open>catch\<close> logs the error and lets the loop go on.
\<close>

definition saveTool_try :: "env \<Rightarrow> string \<Rightarrow> ToolInfo \<Rightarrow> database \<Rightarrow> (error + unit) \<times> database" where
  "saveTool_try e serverName tool d =
     (let searchableText = make_searchableText tool;
          emb = generateEmbedding (prov e) searchableText
      in and_then
           (if shouldUseDatabase e
            then checkDatabaseVectorDimensions (eng e) (length emb) d else (Inr (), d))
           (\<lambda>u d1.
              and_then
                (saveEmbedding (eng e) ''tool'' (tool_content_id serverName tool) searchableText
                   emb (tool_metadata serverName tool) (EMBEDDING_MODEL (prov e)) d1)
                (\<lambda>saved d2. (Inr (), d2))))"

fun save_each :: "env \<Rightarrow> string \<Rightarrow> ToolInfo list \<Rightarrow> database \<Rightarrow> (error + unit) \<times> database" where
  "save_each e serverName [] d = (Inr (), d)"
| "save_each e serverName (tool # tools) d =
     and_then (catching (saveTool_try e serverName tool d))
       (\<lambda>u d1. save_each e serverName tools d1)"

definition saveToolsAsVectorEmbeddings ::
  "env \<Rightarrow> string \<Rightarrow> ToolInfo list \<Rightarrow> database \<Rightarrow> (error + unit) \<times> database" where
  "saveToolsAsVectorEmbeddings e serverName tools d =
     (if \<not> shouldUseDatabase e then (Inr (), d)
      else catching (save_each e serverName tools d))"

text \<open>
  The older revision (\<open>services/vectorSearchService.ts\<close>): the loop has no \<open>try\<close> of its
  own, so the first throw leaves the loop and is caught by the \<open>catch\<close> of the function.
\<close>

definition saveTool_hash :: "env \<Rightarrow> string \<Rightarrow> ToolInfo \<Rightarrow> database \<Rightarrow> (error + unit) \<times> database" where
  "saveTool_hash e serverName tool d =
     (let searchableText = make_searchableText tool;
          emb = generateEmbedding_hash searchableText
      in and_then
           (saveEmbedding (eng e) ''tool'' (tool_content_id serverName tool) searchableText
              emb (tool_metadata serverName tool) ''simple-hash'' d)
           (\<lambda>saved d2. (Inr (), d2)))"

fun save_each_hash :: "env \<Rightarrow> string \<Rightarrow> ToolInfo list \<Rightarrow> database \<Rightarrow> (error + unit) \<times> database" where
  "save_each_hash e serverName [] d = (Inr (), d)"
| "save_each_hash e serverName (tool # tools) d =
     and_then (saveTool_hash e serverName tool d)
       (\<lambda>u d1. save_each_hash e serverName tools d1)"

definition saveToolsAsVectorEmbeddings_hash ::
  "env \<Rightarrow> string \<Rightarrow> ToolInfo list \<Rightarrow> database \<Rightarrow> (error + unit) \<times> database" where
  "saveToolsAsVectorEmbeddings_hash e serverName tools d =
     (if \<not> shouldUseDatabase e then (Inr (), d)
      else catching (save_each_hash e serverName tools d))"

section \<open>Properties of batch ingestion\<close>

text \<open>\<open>Object.keys\<close> on an object with array indices among its keys.\<close>

lemma object_keys_example:
  "object_keys (JObj [(''b'', JNull), (''10'', JNull), (''a'', JNull), (''2'', JNull),
                      (''01'', JNull), (''b'', JNull), (''0'', JNull)]) =
     [''0'', ''2'', ''10'', ''b'', ''a'', ''01'']"
  by (simp add: object_keys_def is_array_index_def is_digit_def decimal_value_def Let_def)

text \<open>Three tools of one server, and an engine that refuses to store the second.\<close>

definition getForecast :: ToolInfo where
  "getForecast = \<lparr>tool_name = ''getForecast'', tool_description = ''Get weather forecast'',
                  tool_inputSchema = JUndefined\<rparr>"

definition getAlerts :: ToolInfo where
  "getAlerts = \<lparr>tool_name = ''getAlerts'', tool_description = ''List weather alerts'',
                tool_inputSchema = JUndefined\<rparr>"

definition getRadar :: ToolInfo where
  "getRadar = \<lparr>tool_name = ''getRadar'', tool_description = ''Show the rain radar'',
               tool_inputSchema = JUndefined\<rparr>"

definition picky_env :: env where
  "picky_env =
     \<lparr>enabled = True,
      eng = \<lparr>refuses = (\<lambda>s. case s of
                            SaveRow r \<Rightarrow> (if content_id r = ''weather:getAlerts''
                                          then Some ''could not store the row'' else None)
                          | _ \<Rightarrow> None),
             typmod_of = (\<lambda>n. int n), distance = cosine_distance\<rparr>,
      prov = offline_provider, JSON_parse = (\<lambda>s. Inl (Error ''Unexpected token''))\<rparr>"

lemma searchable_examples:
  "make_searchableText getForecast = ''getForecast Get weather forecast''"
  "make_searchableText getAlerts = ''getAlerts List weather alerts''"
  "make_searchableText getRadar = ''getRadar Show the rain radar''"
  by (simp_all add: make_searchableText_def getForecast_def getAlerts_def getRadar_def
      truthy_def Let_def)

lemma content_id_examples:
  "tool_content_id ''weather'' getForecast = ''weather:getForecast''"
  "tool_content_id ''weather'' getAlerts = ''weather:getAlerts''"
  "tool_content_id ''weather'' getRadar = ''weather:getRadar''"
  by (simp_all add: tool_content_id_def getForecast_def getAlerts_def getRadar_def)

text \<open>
  In the older revision of \<open>saveToolsAsVectorEmbeddings\<close> the batch does not throw, but a
  tool whose save fails ends the loop: of three tools, the second of which the engine
  refuses to store, only the first is persisted.
\<close>

lemma batch_of_older_revision_stops_at_failure:
  "fst (saveToolsAsVectorEmbeddings_hash picky_env ''weather'' [getForecast, getAlerts, getRadar]
          fresh_database) = Inr () \<and>
   map content_id
     (table (snd (saveToolsAsVectorEmbeddings_hash picky_env ''weather''
                    [getForecast, getAlerts, getRadar] fresh_database))) =
     [''weather:getForecast'']"
  by (simp add: saveToolsAsVectorEmbeddings_hash_def saveTool_hash_def saveEmbedding_def
      findByContentIdentity_def save_def and_then_def catching_def query_def Let_def
      has_identity_def shouldUseDatabase_def searchable_examples content_id_examples
      new_VectorEmbedding_def picky_env_def fresh_database_def)

lemma generateEmbedding_offline_length:
  "length (generateEmbedding offline_provider t) = 100"
  using generateEmbedding_fallback [OF primary_fails_offline_provider, of t]
  by (simp add: generateFallbackEmbedding_length FALLBACK_DIMENSIONS_def)

text \<open>The newer revision, on the same input, goes on to the third tool.\<close>

lemma batch_of_newer_revision_goes_on:
  "fst (saveToolsAsVectorEmbeddings picky_env ''weather'' [getForecast, getAlerts, getRadar]
          fresh_database) = Inr () \<and>
   map content_id
     (table (snd (saveToolsAsVectorEmbeddings picky_env ''weather''
                    [getForecast, getAlerts, getRadar] fresh_database))) =
     [''weather:getForecast'', ''weather:getRadar'']"
  by (simp add: saveToolsAsVectorEmbeddings_def saveTool_try_def saveEmbedding_def
      checkDatabaseVectorDimensions_def checkDatabaseVectorDimensions_try_def
      currentDimensions_of_def generateEmbedding_offline_length
      findByContentIdentity_def save_def and_then_def catching_def query_def Let_def
      has_identity_def shouldUseDatabase_def searchable_examples content_id_examples
      new_VectorEmbedding_def picky_env_def fresh_database_def)

text \<open>
  The newer revision in general. \<open>has_record\<close> says that a record of a content type and
  content id is stored; the invariant \<open>ids_unique\<close> says that the primary keys are set,
  distinct and below the next generated id.
\<close>

definition ids_unique :: "database \<Rightarrow> bool" where
  "ids_unique d =
     (distinct (map ve_id (table d)) \<and>
      list_all (\<lambda>r. case ve_id r of None \<Rightarrow> False | Some i \<Rightarrow> i < next_id d) (table d))"

definition has_record :: "string \<Rightarrow> string \<Rightarrow> database \<Rightarrow> bool" where
  "has_record contentType contentId d =
     list_ex (has_identity contentType contentId) (table d)"

lemma query_rows: "table (snd (query en s d)) = table d \<and> next_id (snd (query en s d)) = next_id d"
  by (cases s) (auto simp: query_def Let_def split: option.splits)

lemma checkDatabaseVectorDimensions_rows:
  "table (snd (checkDatabaseVectorDimensions en w d)) = table d \<and>
   next_id (snd (checkDatabaseVectorDimensions en w d)) = next_id d"
  by (auto simp: checkDatabaseVectorDimensions_def checkDatabaseVectorDimensions_try_def
      and_then_def query_def Let_def split: option.splits prod.splits sum.splits error.splits)

lemma saveEmbedding_rows:
  assumes "saveEmbedding en ct cid txt emb meta mdl d = (r, d')"
  shows "case r of
           Inl err \<Rightarrow> table d' = table d \<and> next_id d' = next_id d
         | Inr e \<Rightarrow>
             has_identity ct cid e \<and>
             (case find (has_identity ct cid) (table d) of
                None \<Rightarrow> ve_id e = Some (next_id d) \<and> table d' = table d @ [e] \<and>
                        next_id d' = Suc (next_id d)
              | Some v \<Rightarrow>
                  (case ve_id v of
                     None \<Rightarrow> ve_id e = Some (next_id d) \<and> table d' = table d @ [e] \<and>
                             next_id d' = Suc (next_id d)
                   | Some i \<Rightarrow> ve_id e = Some i \<and> next_id d' = next_id d \<and>
                       table d' = map (\<lambda>x. if ve_id x = Some i then e else x) (table d)))"
  using assms
  by (auto simp: saveEmbedding_def findByContentIdentity_def save_def and_then_def query_def
      Let_def has_identity_def new_VectorEmbedding_def
      split: option.splits sum.splits dest: find_has_identity)

lemma distinct_ids_same_row:
  "distinct (map ve_id xs) \<Longrightarrow> x \<in> set xs \<Longrightarrow> y \<in> set xs \<Longrightarrow> ve_id x = ve_id y \<Longrightarrow> x = y"
  by (meson distinct_map inj_onD)

lemma map_replace_ids:
  "ve_id e = Some i \<Longrightarrow> map ve_id (map (\<lambda>x. if ve_id x = Some i then e else x) xs) = map ve_id xs"
  by (induction xs) auto

lemma saveEmbedding_keeps:
  assumes s: "saveEmbedding en ct cid txt emb meta mdl d = (r, d')" and u: "ids_unique d"
  shows "ids_unique d' \<and> (has_record ct' cid' d \<longrightarrow> has_record ct' cid' d') \<and>
         (\<forall>e. r = Inr e \<longrightarrow> has_record ct cid d')"
proof (cases r)
  case (Inl err)
  with saveEmbedding_rows [OF s] u show ?thesis
    by (auto simp: ids_unique_def has_record_def list_all_iff split: option.splits)
next
  case (Inr e)
  note rows = saveEmbedding_rows [OF s, unfolded Inr, simplified]
  show ?thesis
  proof (cases "find (has_identity ct cid) (table d)")
    case None
    with rows have e: "has_identity ct cid e" "ve_id e = Some (next_id d)"
      "table d' = table d @ [e]" "next_id d' = Suc (next_id d)" by simp_all
    from u have "Some (next_id d) \<notin> set (map ve_id (table d))"
      by (auto simp: ids_unique_def list_all_iff split: option.splits)
    with u e have "ids_unique d'"
      by (auto simp: ids_unique_def list_all_iff split: option.splits)
    with e Inr show ?thesis by (auto simp: has_record_def list_ex_iff)
  next
    case (Some v)
    then have v: "v \<in> set (table d)" "has_identity ct cid v"
      using find_has_identity [of ct cid "table d" v] by (simp_all add: has_identity_def)
    with u obtain i where i: "ve_id v = Some i"
      by (auto simp: ids_unique_def list_all_iff split: option.splits)
    with rows Some have e: "has_identity ct cid e" "ve_id e = Some i" "next_id d' = next_id d"
      "table d' = map (\<lambda>x. if ve_id x = Some i then e else x) (table d)" by simp_all
    have ids: "map ve_id (table d') = map ve_id (table d)"
      using e by (simp add: map_replace_ids)
    from u v i have lt: "i < next_id d"
      by (auto simp: ids_unique_def list_all_iff split: option.splits)
    from u have "distinct (map ve_id (table d))" by (simp add: ids_unique_def)
    then have dist: "distinct (map ve_id (table d'))" by (simp only: ids)
    have "set (table d') \<subseteq> insert e (set (table d))" using e(4) by auto
    moreover from u have "\<forall>x \<in> set (table d). \<exists>j. ve_id x = Some j \<and> j < next_id d"
      by (auto simp: ids_unique_def list_all_iff split: option.splits)
    ultimately have "\<forall>x \<in> set (table d'). \<exists>j. ve_id x = Some j \<and> j < next_id d'"
      using e(2,3) lt by auto
    with dist have "ids_unique d'"
      by (auto simp: ids_unique_def list_all_iff split: option.splits)
    moreover have "has_record ct' cid' d'" if "has_record ct' cid' d"
    proof -
      from that obtain x where x: "x \<in> set (table d)" "has_identity ct' cid' x"
        by (auto simp: has_record_def list_ex_iff)
      show ?thesis
      proof (cases "ve_id x = Some i")
        case True
        with u v x i have "x = v" by (auto simp: ids_unique_def intro: distinct_ids_same_row)
        with x v have "has_identity ct' cid' e" using e by (simp add: has_identity_def)
        moreover from x True e have "e \<in> set (table d')" by force
        ultimately show ?thesis by (auto simp: has_record_def list_ex_iff)
      next
        case False
        with x e have "x \<in> set (table d')" by force
        with x show ?thesis by (auto simp: has_record_def list_ex_iff)
      qed
    qed
    moreover have "has_record ct cid d'"
    proof -
      from v i e have "e \<in> set (table d')" by force
      with e show ?thesis by (auto simp: has_record_def list_ex_iff)
    qed
    ultimately show ?thesis by simp
  qed
qed

lemma saveTool_try_keeps:
  assumes s: "saveTool_try e sn tool d = (r, d')" and u: "ids_unique d"
  shows "ids_unique d' \<and> (has_record ct cid d \<longrightarrow> has_record ct cid d') \<and>
         (r = Inr () \<longrightarrow> has_record ''tool'' (tool_content_id sn tool) d')"
proof -
  define emb where "emb = generateEmbedding (prov e) (make_searchableText tool)"
  define c where "c = (if shouldUseDatabase e
      then checkDatabaseVectorDimensions (eng e) (length emb) d else (Inr (), d))"
  have c_rows: "table (snd c) = table d \<and> next_id (snd c) = next_id d"
    by (simp add: c_def checkDatabaseVectorDimensions_rows)
  then have c_u: "ids_unique (snd c)" and c_h: "has_record ct cid (snd c) = has_record ct cid d"
    using u by (auto simp: ids_unique_def has_record_def list_all_iff split: option.splits)
  have st: "saveTool_try e sn tool d =
      and_then c (\<lambda>u d1.
        and_then
          (saveEmbedding (eng e) ''tool'' (tool_content_id sn tool) (make_searchableText tool)
             emb (tool_metadata sn tool) (EMBEDDING_MODEL (prov e)) d1)
          (\<lambda>saved d2. (Inr (), d2)))"
    by (simp add: saveTool_try_def Let_def c_def emb_def)
  show ?thesis
  proof (cases "fst c")
    case (Inl err)
    then have "saveTool_try e sn tool d = (Inl err, snd c)"
      by (cases c) (simp add: st and_then_def)
    with s c_u c_h show ?thesis by auto
  next
    case (Inr x)
    obtain r2 d2 where s2: "saveEmbedding (eng e) ''tool'' (tool_content_id sn tool)
        (make_searchableText tool) emb (tool_metadata sn tool) (EMBEDDING_MODEL (prov e)) (snd c)
        = (r2, d2)" by force
    from Inr s2 have "saveTool_try e sn tool d =
        (case r2 of Inl err \<Rightarrow> Inl err | Inr saved \<Rightarrow> Inr (), d2)"
      by (cases c; cases r2) (simp_all add: st and_then_def)
    with s have r: "r = (case r2 of Inl err \<Rightarrow> Inl err | Inr saved \<Rightarrow> Inr ())" and d: "d' = d2"
      by simp_all
    from saveEmbedding_keeps [OF s2 c_u, of ct cid] c_h r d show ?thesis
      by (cases r2) auto
  qed
qed

lemma save_each_keeps:
  "ids_unique d \<Longrightarrow>
   fst (save_each e sn tools d) = Inr () \<and> ids_unique (snd (save_each e sn tools d)) \<and>
   (has_record ct cid d \<longrightarrow> has_record ct cid (snd (save_each e sn tools d)))"
proof (induction tools arbitrary: d)
  case Nil
  then show ?case by simp
next
  case (Cons tool tools)
  obtain r d1 where s: "saveTool_try e sn tool d = (r, d1)" by force
  from saveTool_try_keeps [OF s Cons.prems, of ct cid]
  have u1: "ids_unique d1" and h1: "has_record ct cid d \<longrightarrow> has_record ct cid d1" by simp_all
  have "save_each e sn (tool # tools) d = save_each e sn tools d1"
    using s by (cases r) (simp_all add: catching_def and_then_def)
  with Cons.IH [OF u1] h1 show ?case by simp
qed

lemma save_each_append:
  "save_each e sn (pre @ post) d = save_each e sn post (snd (save_each e sn pre d))"
proof (induction pre arbitrary: d)
  case Nil
  then show ?case by simp
next
  case (Cons tool pre)
  obtain r d1 where s: "saveTool_try e sn tool d = (r, d1)" by force
  then show ?case using Cons.IH [of d1]
    by (cases r) (simp_all add: catching_def and_then_def)
qed

lemma saveToolsAsVectorEmbeddings_never_throws:
  "\<exists>d'. saveToolsAsVectorEmbeddings e sn tools d = (Inr (), d')"
  by (simp add: saveToolsAsVectorEmbeddings_def catching_never_throws)

lemma save_each_goes_on:
  "save_each e sn (pre @ tool # post) d =
     save_each e sn post (snd (saveTool_try e sn tool (snd (save_each e sn pre d))))"
proof -
  obtain r dq where s: "saveTool_try e sn tool (snd (save_each e sn pre d)) = (r, dq)" by force
  then show ?thesis
    by (cases r) (simp_all add: save_each_append catching_def and_then_def)
qed

lemma batch_isolation:
  assumes "shouldUseDatabase e" and "ids_unique d"
    and "fst (saveTool_try e sn tool (snd (save_each e sn pre d))) = Inr ()"
  shows "has_record ''tool'' (tool_content_id sn tool)
           (snd (saveToolsAsVectorEmbeddings e sn (pre @ tool # post) d))"
proof -
  let ?dp = "snd (save_each e sn pre d)"
  obtain r dq where s: "saveTool_try e sn tool ?dp = (r, dq)" by force
  with assms(3) have r: "r = Inr ()" by simp
  from save_each_keeps [OF assms(2), of e sn pre] have up: "ids_unique ?dp" by simp
  from saveTool_try_keeps [OF s up] r
  have uq: "ids_unique dq" and hq: "has_record ''tool'' (tool_content_id sn tool) dq" by simp_all
  have "save_each e sn (pre @ tool # post) d = save_each e sn post dq"
    using s by (simp add: save_each_goes_on)
  with save_each_keeps [OF uq, of e sn post "''tool''" "tool_content_id sn tool"] hq assms(1)
  show ?thesis
    by (cases "save_each e sn post dq") (simp add: saveToolsAsVectorEmbeddings_def catching_def)
qed

text \<open>
  C7. Batch ingestion isolates the failure of a tool. For every list of tools,
  \<open>saveToolsAsVectorEmbeddings\<close> returns without throwing. Whatever the processing of a
  tool of the list does, throw or not, the loop goes on with the tools after it, from
  the state that processing has left. And when the database is enabled, a tool whose
  own processing succeeds in the state in which the loop reaches it is persisted at the
  end of the batch, whichever tools before or after it fail.
\<close>

theorem batch_isolates_failing_tools:
  "(\<exists>d'. saveToolsAsVectorEmbeddings e sn tools d = (Inr (), d')) \<and>
   (tools = pre @ tool # post \<longrightarrow>
      save_each e sn tools d =
        save_each e sn post (snd (saveTool_try e sn tool (snd (save_each e sn pre d)))) \<and>
      (shouldUseDatabase e \<and> ids_unique d \<and>
       fst (saveTool_try e sn tool (snd (save_each e sn pre d))) = Inr () \<longrightarrow>
         has_record ''tool'' (tool_content_id sn tool)
           (snd (saveToolsAsVectorEmbeddings e sn tools d))))"
proof (intro conjI impI)
  show "\<exists>d'. saveToolsAsVectorEmbeddings e sn tools d = (Inr (), d')"
    by (rule saveToolsAsVectorEmbeddings_never_throws)
next
  assume "tools = pre @ tool # post"
  then show "save_each e sn tools d =
      save_each e sn post (snd (saveTool_try e sn tool (snd (save_each e sn pre d))))"
    by (simp only: save_each_goes_on)
next
  assume t: "tools = pre @ tool # post"
    and h: "shouldUseDatabase e \<and> ids_unique d \<and>
       fst (saveTool_try e sn tool (snd (save_each e sn pre d))) = Inr ()"
  from h have "has_record ''tool'' (tool_content_id sn tool)
      (snd (saveToolsAsVectorEmbeddings e sn (pre @ tool # post) d))"
    by (intro batch_isolation) simp_all
  with t show "has_record ''tool'' (tool_content_id sn tool)
      (snd (saveToolsAsVectorEmbeddings e sn tools d))"
    by simp
qed

text \<open>
  Three tools, the second of which the engine refuses to store: its processing throws,
  the third is processed after it, and the first and the third are persisted.
\<close>

lemma batch_example_steps:
  "shouldUseDatabase picky_env"
  "ids_unique fresh_database"
  "fst (saveTool_try picky_env ''weather'' getAlerts
          (snd (save_each picky_env ''weather'' [getForecast] fresh_database))) =
     Inl (Error ''could not store the row'')"
  "fst (saveTool_try picky_env ''weather'' getRadar
          (snd (save_each picky_env ''weather'' [getForecast, getAlerts] fresh_database))) =
     Inr ()"
  by (simp_all add: saveTool_try_def saveEmbedding_def ids_unique_def
      checkDatabaseVectorDimensions_def checkDatabaseVectorDimensions_try_def
      currentDimensions_of_def generateEmbedding_offline_length
      findByContentIdentity_def save_def and_then_def catching_def query_def Let_def
      has_identity_def shouldUseDatabase_def searchable_examples content_id_examples
      new_VectorEmbedding_def picky_env_def fresh_database_def)

theorem batch_isolates_failing_tools_witness:
  "shouldUseDatabase picky_env \<and> ids_unique fresh_database \<and>
   fst (saveTool_try picky_env ''weather'' getAlerts
          (snd (save_each picky_env ''weather'' [getForecast] fresh_database))) =
     Inl (Error ''could not store the row'') \<and>
   fst (saveTool_try picky_env ''weather'' getRadar
          (snd (save_each picky_env ''weather'' [getForecast, getAlerts] fresh_database))) =
     Inr () \<and>
   (\<exists>d'. saveToolsAsVectorEmbeddings picky_env ''weather'' [getForecast, getAlerts, getRadar]
            fresh_database = (Inr (), d')) \<and>
   has_record ''tool'' ''weather:getRadar''
     (snd (saveToolsAsVectorEmbeddings picky_env ''weather'' [getForecast, getAlerts, getRadar]
             fresh_database))"
proof -
  have l: "[getForecast, getAlerts, getRadar] = [getForecast, getAlerts] @ getRadar # []"
    by simp
  note t = batch_isolates_failing_tools [of picky_env "''weather''"
      "[getForecast, getAlerts, getRadar]" fresh_database "[getForecast, getAlerts]" getRadar "[]"]
  from t have "\<exists>d'. saveToolsAsVectorEmbeddings picky_env ''weather''
      [getForecast, getAlerts, getRadar] fresh_database = (Inr (), d')"
    by (rule conjunct1)
  moreover from t [THEN conjunct2, THEN mp, OF l, THEN conjunct2, THEN mp] batch_example_steps
  have "has_record ''tool'' (tool_content_id ''weather'' getRadar)
     (snd (saveToolsAsVectorEmbeddings picky_env ''weather'' [getForecast, getAlerts, getRadar]
             fresh_database))"
    by blast
  ultimately show ?thesis
    using batch_example_steps by (simp add: content_id_examples)
qed

section \<open>The dual-backend adapters\<close>

text \<open>
  Every adapter has one shape: when the global flag is set, the operation is tried on the
  repository of the database, and the \<open>catch\<close> block returns what the file-backed
  function returns for the same arguments; when the flag is not set the file-backed
  function is called directly. A repository is given by the outcomes of its methods in
  the current state of the database, a file backend by the outcomes of its functions.
\<close>

definition try_or_fallback :: "bool \<Rightarrow> error + 'a \<Rightarrow> error + 'a \<Rightarrow> error + 'a" where
  "try_or_fallback useDb attempt fileResult =
     (if useDb then (case attempt of Inl err \<Rightarrow> fileResult | Inr x \<Rightarrow> Inr x)
      else fileResult)"

definition await :: "error + 'a \<Rightarrow> ('a \<Rightarrow> error + 'b) \<Rightarrow> error + 'b" where
  "await r f = (case r of Inl err \<Rightarrow> Inl err | Inr x \<Rightarrow> f x)"

subsection \<open>Users\<close>

record User =
  user_username :: string
  user_password :: string
  user_isAdmin :: bool

record IUser =
  username :: string
  password :: string
  isAdmin :: bool

record user_repository =
  users_findAll :: "error + User list"
  users_findByUsername :: "string \<Rightarrow> error + User option"
  users_createUser :: "IUser \<Rightarrow> error + User"
  users_updatePassword :: "string \<Rightarrow> string \<Rightarrow> error + bool"

record user_files =
  getUsersFile :: "error + IUser list"
  findUserByUsernameFile :: "string \<Rightarrow> error + IUser option"
  createUserFile :: "IUser \<Rightarrow> error + IUser option"
  updateUserPasswordFile :: "string \<Rightarrow> string \<Rightarrow> error + bool"
  initializeDefaultUserFile :: "error + unit"

definition to_IUser :: "User \<Rightarrow> IUser" where
  "to_IUser user =
     \<lparr>username = user_username user, password = user_password user, isAdmin = user_isAdmin user\<rparr>"

definition getUsers :: "bool \<Rightarrow> user_repository \<Rightarrow> user_files \<Rightarrow> error + IUser list" where
  "getUsers useDb repo files =
     try_or_fallback useDb
       (await (users_findAll repo) (\<lambda>dbUsers. Inr (map to_IUser dbUsers)))
       (getUsersFile files)"

definition findUserByUsername ::
  "bool \<Rightarrow> user_repository \<Rightarrow> user_files \<Rightarrow> string \<Rightarrow> error + IUser option" where
  "findUserByUsername useDb repo files name =
     try_or_fallback useDb
       (await (users_findByUsername repo name) (\<lambda>user.
          case user of Some u \<Rightarrow> Inr (Some (to_IUser u)) | None \<Rightarrow> Inr None))
       (findUserByUsernameFile files name)"

definition createUser ::
  "bool \<Rightarrow> user_repository \<Rightarrow> user_files \<Rightarrow> IUser \<Rightarrow> error + IUser option" where
  "createUser useDb repo files userData =
     try_or_fallback useDb
       (await (users_createUser repo userData) (\<lambda>user. Inr (Some (to_IUser user))))
       (createUserFile files userData)"

definition updateUserPassword ::
  "bool \<Rightarrow> user_repository \<Rightarrow> user_files \<Rightarrow> string \<Rightarrow> string \<Rightarrow> error + bool" where
  "updateUserPassword useDb repo files name newPassword =
     try_or_fallback useDb
       (users_updatePassword repo name newPassword)
       (updateUserPasswordFile files name newPassword)"

definition initializeDefaultUser :: "bool \<Rightarrow> user_repository \<Rightarrow> user_files \<Rightarrow> error + unit" where
  "initializeDefaultUser useDb repo files =
     try_or_fallback useDb
       (await (users_findAll repo) (\<lambda>users.
          if length users = 0
          then await (users_createUser repo
                        \<lparr>username = ''admin'', password = ''admin123'', isAdmin = True\<rparr>)
                 (\<lambda>created. Inr ())
          else Inr ()))
       (initializeDefaultUserFile files)"

subsection \<open>Server configurations\<close>

record ServerConfigEntity =
  sc_name :: string
  sc_type :: "string option"
  sc_url :: "string option"
  sc_command :: "string option"
  sc_args :: "string list option"
  sc_env :: "(string \<times> string) list option"
  sc_enabled :: bool
  sc_createdAt :: "nat option"

record ServerConfig =
  cfg_type :: "string option"
  cfg_url :: "string option"
  cfg_command :: "string option"
  cfg_args :: "string list option"
  cfg_env :: "(string \<times> string) list option"
  cfg_enabled :: "bool option"

record ServerInfo =
  si_name :: string
  si_status :: string
  si_error :: "string option"
  si_tools :: "ToolInfo list"
  si_createTime :: nat
  si_enabled :: "bool option"

record outcome =
  success :: bool
  message :: "string option"

datatype config_lookup = DbEntity ServerConfigEntity | FileEntry ServerConfig | Null

record server_config_repository =
  sc_findAll :: "error + ServerConfigEntity list"
  sc_findByName :: "string \<Rightarrow> error + ServerConfigEntity option"
  sc_save :: "ServerConfigEntity \<Rightarrow> error + ServerConfigEntity"
  sc_delete :: "string \<Rightarrow> error + bool"
  sc_toggleEnabled :: "string \<Rightarrow> bool \<Rightarrow> error + ServerConfigEntity option"

text \<open>\<open>mcpServers\<close> is \<open>loadSettings().mcpServers\<close>; \<open>now\<close> is \<open>Date.now()\<close>.\<close>

record server_config_files =
  getServersInfoFile :: "error + ServerInfo list"
  mcpServers :: "error + (string \<rightharpoonup> ServerConfig)"
  addServerFile :: "string \<Rightarrow> ServerConfig \<Rightarrow> error + outcome"
  updateMcpServerFile :: "string \<Rightarrow> ServerConfig \<Rightarrow> error + outcome"
  removeServerFile :: "string \<Rightarrow> error + outcome"
  toggleServerStatusFile :: "string \<Rightarrow> bool \<Rightarrow> error + outcome"
  now :: nat

definition to_ServerInfo :: "nat \<Rightarrow> ServerConfigEntity \<Rightarrow> ServerInfo" where
  "to_ServerInfo t config =
     \<lparr>si_name = sc_name config, si_status = ''disconnected'', si_error = None, si_tools = [],
      si_createTime = (case sc_createdAt config of Some c \<Rightarrow> c | None \<Rightarrow> t),
      si_enabled = Some (sc_enabled config)\<rparr>"

definition getServersInfo ::
  "bool \<Rightarrow> server_config_repository \<Rightarrow> server_config_files \<Rightarrow> error + ServerInfo list" where
  "getServersInfo useDb repo files =
     try_or_fallback useDb
       (await (sc_findAll repo) (\<lambda>dbServerConfigs.
          Inr (map (to_ServerInfo (now files)) dbServerConfigs)))
       (getServersInfoFile files)"

definition settings_entry :: "server_config_files \<Rightarrow> string \<Rightarrow> error + config_lookup" where
  "settings_entry files name =
     await (mcpServers files) (\<lambda>servers.
       case servers name of Some c \<Rightarrow> Inr (FileEntry c) | None \<Rightarrow> Inr Null)"

definition getServerConfigByName ::
  "bool \<Rightarrow> server_config_repository \<Rightarrow> server_config_files \<Rightarrow> string \<Rightarrow> error + config_lookup" where
  "getServerConfigByName useDb repo files name =
     try_or_fallback useDb
       (await (sc_findByName repo name) (\<lambda>serverConfig.
          case serverConfig of Some c \<Rightarrow> Inr (DbEntity c) | None \<Rightarrow> Inr Null))
       (settings_entry files name)"

definition entity_of_config :: "string \<Rightarrow> ServerConfig \<Rightarrow> ServerConfigEntity" where
  "entity_of_config name config =
     \<lparr>sc_name = name, sc_type = cfg_type config, sc_url = cfg_url config,
      sc_command = cfg_command config, sc_args = cfg_args config, sc_env = cfg_env config,
      sc_enabled = (case cfg_enabled config of Some b \<Rightarrow> b | None \<Rightarrow> True),
      sc_createdAt = None\<rparr>"

definition addServer ::
  "bool \<Rightarrow> server_config_repository \<Rightarrow> server_config_files \<Rightarrow> string \<Rightarrow> ServerConfig \<Rightarrow>
   error + outcome" where
  "addServer useDb repo files name config =
     try_or_fallback useDb
       (await (sc_findByName repo name) (\<lambda>existingServer.
          case existingServer of
            Some s \<Rightarrow> Inr \<lparr>success = False, message = Some ''Server name already exists''\<rparr>
          | None \<Rightarrow>
              await (sc_save repo (entity_of_config name config)) (\<lambda>saved.
                Inr \<lparr>success = True, message = Some ''Server added successfully''\<rparr>)))
       (addServerFile files name config)"

definition updateMcpServer ::
  "bool \<Rightarrow> server_config_repository \<Rightarrow> server_config_files \<Rightarrow> string \<Rightarrow> ServerConfig \<Rightarrow>
   error + outcome" where
  "updateMcpServer useDb repo files name config =
     try_or_fallback useDb
       (await (sc_findByName repo name) (\<lambda>existingServer.
          case existingServer of
            None \<Rightarrow> Inr \<lparr>success = False, message = Some ''Server not found''\<rparr>
          | Some s \<Rightarrow>
              await (sc_save repo (entity_of_config name config)) (\<lambda>saved.
                Inr \<lparr>success = True, message = Some ''Server updated successfully''\<rparr>)))
       (updateMcpServerFile files name config)"

definition removeServer ::
  "bool \<Rightarrow> server_config_repository \<Rightarrow> server_config_files \<Rightarrow> string \<Rightarrow> error + outcome" where
  "removeServer useDb repo files name =
     try_or_fallback useDb
       (await (sc_findByName repo name) (\<lambda>existingServer.
          case existingServer of
            None \<Rightarrow> Inr \<lparr>success = False, message = Some ''Server not found''\<rparr>
          | Some s \<Rightarrow>
              await (sc_delete repo name) (\<lambda>result.
                if result
                then Inr \<lparr>success = True, message = Some ''Server removed successfully''\<rparr>
                else Inr \<lparr>success = False, message = Some ''Failed to remove server''\<rparr>)))
       (removeServerFile files name)"

definition toggleServerStatus ::
  "bool \<Rightarrow> server_config_repository \<Rightarrow> server_config_files \<Rightarrow> string \<Rightarrow> bool \<Rightarrow>
   error + outcome" where
  "toggleServerStatus useDb repo files name on =
     try_or_fallback useDb
       (await (sc_toggleEnabled repo name on) (\<lambda>updatedServer.
          case updatedServer of
            Some s \<Rightarrow>
              Inr \<lparr>success = True,
                   message = Some (''Server '' @ (if on then ''enabled'' else ''disabled'') @
                                   '' successfully'')\<rparr>
          | None \<Rightarrow> Inr \<lparr>success = False, message = Some ''Server not found''\<rparr>))
       (toggleServerStatusFile files name on)"

subsection \<open>Groups\<close>

text \<open>\<open>group_servers\<close> is \<open>None\<close> when the relation was not loaded.\<close>

record Group =
  group_id :: string
  group_name :: string
  group_description :: "string option"
  group_servers :: "ServerConfigEntity list option"

record IGroup =
  ig_id :: string
  ig_name :: string
  ig_description :: "string option"
  ig_servers :: "string list"

record IGroupPatch =
  patch_name :: "string option"
  patch_description :: "string option"
  patch_servers :: "string list option"

record group_repository =
  groups_findAll :: "error + Group list"
  groups_findByIdOrName :: "string \<Rightarrow> error + Group option"
  groups_createGroup :: "string \<Rightarrow> string option \<Rightarrow> string list \<Rightarrow> error + Group"
  groups_findOne :: "string \<Rightarrow> error + Group option"
  groups_save :: "Group \<Rightarrow> error + Group"
  groups_delete :: "string \<Rightarrow> error + bool"
  groups_addServerToGroup :: "string \<Rightarrow> string \<Rightarrow> error + Group option"
  groups_removeServerFromGroup :: "string \<Rightarrow> string \<Rightarrow> error + Group option"
  groups_getGroupServers :: "string \<Rightarrow> error + ServerConfigEntity list"
  groups_updateGroupServers :: "string \<Rightarrow> string list \<Rightarrow> error + Group option"

record group_files =
  getAllGroupsFile :: "error + IGroup list"
  getGroupByIdOrNameFile :: "string \<Rightarrow> error + IGroup option"
  createGroupFile :: "string \<Rightarrow> string option \<Rightarrow> string list \<Rightarrow> error + IGroup option"
  updateGroupFile :: "string \<Rightarrow> IGroupPatch \<Rightarrow> error + IGroup option"
  deleteGroupFile :: "string \<Rightarrow> error + bool"
  addServerToGroupFile :: "string \<Rightarrow> string \<Rightarrow> error + IGroup option"
  removeServerFromGroupFile :: "string \<Rightarrow> string \<Rightarrow> error + IGroup option"
  getServersInGroupFile :: "string \<Rightarrow> error + string list"
  updateGroupServersFile :: "string \<Rightarrow> string list \<Rightarrow> error + IGroup option"

text \<open>\<open>group.servers.map((server) => server.name)\<close> throws on a relation that is not loaded.\<close>

definition server_names :: "Group \<Rightarrow> error + string list" where
  "server_names g =
     (case group_servers g of
        None \<Rightarrow> Inl (Error ''Cannot read properties of undefined (reading map)'')
      | Some servers \<Rightarrow> Inr (map sc_name servers))"

definition to_IGroup :: "Group \<Rightarrow> error + IGroup" where
  "to_IGroup g =
     await (server_names g) (\<lambda>names.
       Inr \<lparr>ig_id = group_id g, ig_name = group_name g, ig_description = group_description g,
            ig_servers = names\<rparr>)"

fun each_to_IGroup :: "Group list \<Rightarrow> error + IGroup list" where
  "each_to_IGroup [] = Inr []"
| "each_to_IGroup (g # gs) =
     await (to_IGroup g) (\<lambda>x. await (each_to_IGroup gs) (\<lambda>xs. Inr (x # xs)))"

definition to_IGroup_or_null :: "Group option \<Rightarrow> error + IGroup option" where
  "to_IGroup_or_null g =
     (case g of None \<Rightarrow> Inr None | Some x \<Rightarrow> await (to_IGroup x) (\<lambda>y. Inr (Some y)))"

definition getAllGroups :: "bool \<Rightarrow> group_repository \<Rightarrow> group_files \<Rightarrow> error + IGroup list" where
  "getAllGroups useDb repo files =
     try_or_fallback useDb
       (await (groups_findAll repo) each_to_IGroup)
       (getAllGroupsFile files)"

definition getGroupByIdOrName ::
  "bool \<Rightarrow> group_repository \<Rightarrow> group_files \<Rightarrow> string \<Rightarrow> error + IGroup option" where
  "getGroupByIdOrName useDb repo files key =
     try_or_fallback useDb
       (await (groups_findByIdOrName repo key) to_IGroup_or_null)
       (getGroupByIdOrNameFile files key)"

definition createGroup ::
  "bool \<Rightarrow> group_repository \<Rightarrow> group_files \<Rightarrow> string \<Rightarrow> string option \<Rightarrow> string list \<Rightarrow>
   error + IGroup option" where
  "createGroup useDb repo files name description servers =
     try_or_fallback useDb
       (await (groups_createGroup repo name description servers) (\<lambda>g.
          await (server_names g) (\<lambda>names.
            Inr (Some \<lparr>ig_id = group_id g, ig_name = group_name g,
                       ig_description = (if group_description g = Some [] then None
                                         else group_description g),
                       ig_servers = names\<rparr>))))
       (createGroupFile files name description servers)"

fun find_servers :: "server_config_repository \<Rightarrow> string list \<Rightarrow> error + ServerConfigEntity list" where
  "find_servers screpo [] = Inr []"
| "find_servers screpo (serverName # rest) =
     await (sc_findByName screpo serverName) (\<lambda>server.
       await (find_servers screpo rest) (\<lambda>servers.
         Inr (case server of Some s \<Rightarrow> s # servers | None \<Rightarrow> servers)))"

definition updateGroup ::
  "bool \<Rightarrow> group_repository \<Rightarrow> server_config_repository \<Rightarrow> group_files \<Rightarrow> string \<Rightarrow>
   IGroupPatch \<Rightarrow> error + IGroup option" where
  "updateGroup useDb repo screpo files gid patch =
     try_or_fallback useDb
       (await (groups_findOne repo gid) (\<lambda>found.
          case found of
            None \<Rightarrow> Inr None
          | Some groupEntity \<Rightarrow>
              (let g1 = (case patch_name patch of
                           Some n \<Rightarrow> groupEntity\<lparr>group_name := n\<rparr> | None \<Rightarrow> groupEntity);
                   g2 = (case patch_description patch of
                           Some ds \<Rightarrow> g1\<lparr>group_description := Some ds\<rparr> | None \<Rightarrow> g1)
               in await
                    (case patch_servers patch of
                       None \<Rightarrow> Inr g2
                     | Some names \<Rightarrow>
                         await (find_servers screpo names) (\<lambda>servers.
                           Inr (g2\<lparr>group_servers := Some servers\<rparr>)))
                    (\<lambda>g3. await (groups_save repo g3) (\<lambda>saved.
                       await (to_IGroup saved) (\<lambda>y. Inr (Some y)))))))
       (updateGroupFile files gid patch)"

definition deleteGroup :: "bool \<Rightarrow> group_repository \<Rightarrow> group_files \<Rightarrow> string \<Rightarrow> error + bool" where
  "deleteGroup useDb repo files gid =
     try_or_fallback useDb (groups_delete repo gid) (deleteGroupFile files gid)"

definition addServerToGroup ::
  "bool \<Rightarrow> group_repository \<Rightarrow> group_files \<Rightarrow> string \<Rightarrow> string \<Rightarrow> error + IGroup option" where
  "addServerToGroup useDb repo files groupId serverName =
     try_or_fallback useDb
       (await (groups_addServerToGroup repo groupId serverName) to_IGroup_or_null)
       (addServerToGroupFile files groupId serverName)"

definition removeServerFromGroup ::
  "bool \<Rightarrow> group_repository \<Rightarrow> group_files \<Rightarrow> string \<Rightarrow> string \<Rightarrow> error + IGroup option" where
  "removeServerFromGroup useDb repo files groupId serverName =
     try_or_fallback useDb
       (await (groups_removeServerFromGroup repo groupId serverName) to_IGroup_or_null)
       (removeServerFromGroupFile files groupId serverName)"

definition getServersInGroup ::
  "bool \<Rightarrow> group_repository \<Rightarrow> group_files \<Rightarrow> string \<Rightarrow> error + string list" where
  "getServersInGroup useDb repo files groupId =
     try_or_fallback useDb
       (await (groups_getGroupServers repo groupId) (\<lambda>servers. Inr (map sc_name servers)))
       (getServersInGroupFile files groupId)"

definition updateGroupServers ::
  "bool \<Rightarrow> group_repository \<Rightarrow> group_files \<Rightarrow> string \<Rightarrow> string list \<Rightarrow> error + IGroup option" where
  "updateGroupServers useDb repo files groupId servers =
     try_or_fallback useDb
       (await (groups_updateGroupServers repo groupId servers) to_IGroup_or_null)
       (updateGroupServersFile files groupId servers)"

subsection \<open>Market servers\<close>

text \<open>
  A market server as the adapter returns it; \<open>ms_row\<close> stands for the columns of the
  database row that the adapter does not copy (\<open>None\<close> outside the database).
\<close>

record MarketServer =
  ms_name :: string
  ms_display_name :: string
  ms_description :: string
  ms_repository :: jsval
  ms_homepage :: string
  ms_author :: jsval
  ms_license :: string
  ms_categories :: "string list"
  ms_tags :: "string list"
  ms_examples :: jsval
  ms_installations :: jsval
  ms_arguments :: jsval
  ms_tools :: jsval
  ms_is_official :: bool
  ms_row :: "jsval option"

record market_repository =
  market_findAll :: "error + MarketServer list"
  market_findByName :: "string \<Rightarrow> error + MarketServer option"
  market_getCategories :: "error + string list"
  market_getTags :: "error + string list"
  market_search :: "string \<Rightarrow> error + MarketServer list"
  market_filterByCategory :: "string \<Rightarrow> error + MarketServer list"
  market_filterByTag :: "string \<Rightarrow> error + MarketServer list"

record market_files =
  getMarketServersFile :: "error + (string \<rightharpoonup> MarketServer)"
  getMarketServerByNameFile :: "string \<Rightarrow> error + MarketServer option"
  getMarketCategoriesFile :: "error + string list"
  getMarketTagsFile :: "error + string list"
  searchMarketServersFile :: "string \<Rightarrow> error + MarketServer list"
  filterMarketServersByCategoryFile :: "string \<Rightarrow> error + MarketServer list"
  filterMarketServersByTagFile :: "string \<Rightarrow> error + MarketServer list"

definition to_MarketServer :: "MarketServer \<Rightarrow> MarketServer" where
  "to_MarketServer server =
     \<lparr>ms_name = ms_name server, ms_display_name = ms_display_name server,
      ms_description = ms_description server, ms_repository = ms_repository server,
      ms_homepage = ms_homepage server, ms_author = ms_author server,
      ms_license = ms_license server, ms_categories = ms_categories server,
      ms_tags = ms_tags server, ms_examples = ms_examples server,
      ms_installations = ms_installations server, ms_arguments = ms_arguments server,
      ms_tools = ms_tools server, ms_is_official = ms_is_official server, ms_row = None\<rparr>"

definition getMarketServers ::
  "bool \<Rightarrow> market_repository \<Rightarrow> market_files \<Rightarrow> error + (string \<rightharpoonup> MarketServer)" where
  "getMarketServers useDb repo files =
     try_or_fallback useDb
       (await (market_findAll repo) (\<lambda>dbMarketServers.
          Inr (foldl (\<lambda>marketServersRecord server.
                        marketServersRecord(ms_name server \<mapsto> to_MarketServer server))
                 Map.empty dbMarketServers)))
       (getMarketServersFile files)"

definition getMarketServerByName ::
  "bool \<Rightarrow> market_repository \<Rightarrow> market_files \<Rightarrow> string \<Rightarrow> error + MarketServer option" where
  "getMarketServerByName useDb repo files name =
     try_or_fallback useDb
       (await (market_findByName repo name) (\<lambda>marketServer.
          case marketServer of Some m \<Rightarrow> Inr (Some (to_MarketServer m)) | None \<Rightarrow> Inr None))
       (getMarketServerByNameFile files name)"

definition getMarketCategories ::
  "bool \<Rightarrow> market_repository \<Rightarrow> market_files \<Rightarrow> error + string list" where
  "getMarketCategories useDb repo files =
     try_or_fallback useDb (market_getCategories repo) (getMarketCategoriesFile files)"

definition getMarketTags :: "bool \<Rightarrow> market_repository \<Rightarrow> market_files \<Rightarrow> error + string list" where
  "getMarketTags useDb repo files =
     try_or_fallback useDb (market_getTags repo) (getMarketTagsFile files)"

definition searchMarketServers ::
  "bool \<Rightarrow> market_repository \<Rightarrow> market_files \<Rightarrow> string \<Rightarrow> error + MarketServer list" where
  "searchMarketServers useDb repo files qry =
     try_or_fallback useDb (market_search repo qry) (searchMarketServersFile files qry)"

definition filterMarketServersByCategory ::
  "bool \<Rightarrow> market_repository \<Rightarrow> market_files \<Rightarrow> string \<Rightarrow> error + MarketServer list" where
  "filterMarketServersByCategory useDb repo files category =
     try_or_fallback useDb (market_filterByCategory repo category)
       (filterMarketServersByCategoryFile files category)"

definition filterMarketServersByTag ::
  "bool \<Rightarrow> market_repository \<Rightarrow> market_files \<Rightarrow> string \<Rightarrow> error + MarketServer list" where
  "filterMarketServersByTag useDb repo files tag =
     try_or_fallback useDb (market_filterByTag repo tag) (filterMarketServersByTagFile files tag)"

section \<open>Properties of the adapters\<close>

lemma try_or_fallback_throw: "try_or_fallback True (await (Inl err) f) r = r"
  by (simp add: try_or_fallback_def await_def)

lemma try_or_fallback_throw_later: "g x = Inl err \<Longrightarrow> try_or_fallback True (await (Inr x) g) r = r"
  by (simp add: try_or_fallback_def await_def)

lemma try_or_fallback_direct: "try_or_fallback True (Inl err) r = r"
  by (simp add: try_or_fallback_def)

lemma users_fall_back:
  "(users_findAll ur = Inl err \<longrightarrow>
      getUsers True ur uf = getUsersFile uf \<and>
      initializeDefaultUser True ur uf = initializeDefaultUserFile uf) \<and>
   (users_findAll ur = Inr [] \<and> users_createUser ur
        \<lparr>username = ''admin'', password = ''admin123'', isAdmin = True\<rparr> = Inl err \<longrightarrow>
      initializeDefaultUser True ur uf = initializeDefaultUserFile uf) \<and>
   (users_findByUsername ur name = Inl err \<longrightarrow>
      findUserByUsername True ur uf name = findUserByUsernameFile uf name) \<and>
   (users_createUser ur userData = Inl err \<longrightarrow>
      createUser True ur uf userData = createUserFile uf userData) \<and>
   (users_updatePassword ur name newPassword = Inl err \<longrightarrow>
      updateUserPassword True ur uf name newPassword = updateUserPasswordFile uf name newPassword)"
  by (simp add: getUsers_def initializeDefaultUser_def findUserByUsername_def createUser_def
      updateUserPassword_def try_or_fallback_def await_def)

lemma server_configs_fall_back:
  "(sc_findAll sr = Inl err \<longrightarrow> getServersInfo True sr sf = getServersInfoFile sf) \<and>
   (sc_findByName sr name = Inl err \<longrightarrow>
      getServerConfigByName True sr sf name = settings_entry sf name \<and>
      addServer True sr sf name config = addServerFile sf name config \<and>
      updateMcpServer True sr sf name config = updateMcpServerFile sf name config \<and>
      removeServer True sr sf name = removeServerFile sf name) \<and>
   (sc_findByName sr name = Inr None \<and> sc_save sr (entity_of_config name config) = Inl err \<longrightarrow>
      addServer True sr sf name config = addServerFile sf name config) \<and>
   (sc_findByName sr name = Inr (Some existing) \<and>
    sc_save sr (entity_of_config name config) = Inl err \<longrightarrow>
      updateMcpServer True sr sf name config = updateMcpServerFile sf name config) \<and>
   (sc_findByName sr name = Inr (Some existing) \<and> sc_delete sr name = Inl err \<longrightarrow>
      removeServer True sr sf name = removeServerFile sf name) \<and>
   (sc_toggleEnabled sr name on = Inl err \<longrightarrow>
      toggleServerStatus True sr sf name on = toggleServerStatusFile sf name on)"
  by (simp add: getServersInfo_def getServerConfigByName_def addServer_def updateMcpServer_def
      removeServer_def toggleServerStatus_def try_or_fallback_def await_def)

lemma groups_fall_back:
  "(groups_findAll gr = Inl err \<longrightarrow> getAllGroups True gr gf = getAllGroupsFile gf) \<and>
   (groups_findByIdOrName gr key = Inl err \<longrightarrow>
      getGroupByIdOrName True gr gf key = getGroupByIdOrNameFile gf key) \<and>
   (groups_createGroup gr name description servers = Inl err \<longrightarrow>
      createGroup True gr gf name description servers =
        createGroupFile gf name description servers) \<and>
   (groups_findOne gr gid = Inl err \<longrightarrow>
      updateGroup True gr sr gf gid patch = updateGroupFile gf gid patch) \<and>
   (groups_findOne gr gid = Inr (Some g) \<and> patch_servers patch = None \<and>
    groups_save gr
      (let g1 = (case patch_name patch of Some n \<Rightarrow> g\<lparr>group_name := n\<rparr> | None \<Rightarrow> g)
       in case patch_description patch of
            Some ds \<Rightarrow> g1\<lparr>group_description := Some ds\<rparr> | None \<Rightarrow> g1) = Inl err \<longrightarrow>
      updateGroup True gr sr gf gid patch = updateGroupFile gf gid patch) \<and>
   (groups_findOne gr gid = Inr (Some g) \<and> patch_servers patch = Some names \<and>
    find_servers sr names = Inl err \<longrightarrow>
      updateGroup True gr sr gf gid patch = updateGroupFile gf gid patch) \<and>
   (groups_findOne gr gid = Inr (Some g) \<and> patch_servers patch = Some names \<and>
    find_servers sr names = Inr found \<and>
    groups_save gr
      ((let g1 = (case patch_name patch of Some n \<Rightarrow> g\<lparr>group_name := n\<rparr> | None \<Rightarrow> g)
        in case patch_description patch of
             Some ds \<Rightarrow> g1\<lparr>group_description := Some ds\<rparr> | None \<Rightarrow> g1)
       \<lparr>group_servers := Some found\<rparr>) = Inl err \<longrightarrow>
      updateGroup True gr sr gf gid patch = updateGroupFile gf gid patch) \<and>
   (groups_delete gr gid = Inl err \<longrightarrow> deleteGroup True gr gf gid = deleteGroupFile gf gid) \<and>
   (groups_addServerToGroup gr gid serverName = Inl err \<longrightarrow>
      addServerToGroup True gr gf gid serverName = addServerToGroupFile gf gid serverName) \<and>
   (groups_removeServerFromGroup gr gid serverName = Inl err \<longrightarrow>
      removeServerFromGroup True gr gf gid serverName =
        removeServerFromGroupFile gf gid serverName) \<and>
   (groups_getGroupServers gr gid = Inl err \<longrightarrow>
      getServersInGroup True gr gf gid = getServersInGroupFile gf gid) \<and>
   (groups_updateGroupServers gr gid servers = Inl err \<longrightarrow>
      updateGroupServers True gr gf gid servers = updateGroupServersFile gf gid servers)"
  by (simp add: getAllGroups_def getGroupByIdOrName_def createGroup_def updateGroup_def
      deleteGroup_def addServerToGroup_def removeServerFromGroup_def getServersInGroup_def
      updateGroupServers_def try_or_fallback_def await_def Let_def)

lemma market_fall_back:
  "(market_findAll mr = Inl err \<longrightarrow> getMarketServers True mr mf = getMarketServersFile mf) \<and>
   (market_findByName mr name = Inl err \<longrightarrow>
      getMarketServerByName True mr mf name = getMarketServerByNameFile mf name) \<and>
   (market_getCategories mr = Inl err \<longrightarrow>
      getMarketCategories True mr mf = getMarketCategoriesFile mf) \<and>
   (market_getTags mr = Inl err \<longrightarrow> getMarketTags True mr mf = getMarketTagsFile mf) \<and>
   (market_search mr qry = Inl err \<longrightarrow>
      searchMarketServers True mr mf qry = searchMarketServersFile mf qry) \<and>
   (market_filterByCategory mr category = Inl err \<longrightarrow>
      filterMarketServersByCategory True mr mf category =
        filterMarketServersByCategoryFile mf category) \<and>
   (market_filterByTag mr tag = Inl err \<longrightarrow>
      filterMarketServersByTag True mr mf tag = filterMarketServersByTagFile mf tag)"
  by (simp add: getMarketServers_def getMarketServerByName_def getMarketCategories_def
      getMarketTags_def searchMarketServers_def filterMarketServersByCategory_def
      filterMarketServersByTag_def try_or_fallback_def await_def)

text \<open>
  C4. With the global flag set, whenever a call to the database-backed repository throws
  inside an adapter (of users, server configurations, groups or market servers), the
  adapter returns exactly what the file-backed function returns for the same arguments;
  the error of the database does not reach the caller.
\<close>

theorem adapters_fall_back_to_files:
  "((users_findAll ur = Inl err \<longrightarrow>
      getUsers True ur uf = getUsersFile uf \<and>
      initializeDefaultUser True ur uf = initializeDefaultUserFile uf) \<and>
   (users_findAll ur = Inr [] \<and> users_createUser ur
        \<lparr>username = ''admin'', password = ''admin123'', isAdmin = True\<rparr> = Inl err \<longrightarrow>
      initializeDefaultUser True ur uf = initializeDefaultUserFile uf) \<and>
   (users_findByUsername ur name = Inl err \<longrightarrow>
      findUserByUsername True ur uf name = findUserByUsernameFile uf name) \<and>
   (users_createUser ur userData = Inl err \<longrightarrow>
      createUser True ur uf userData = createUserFile uf userData) \<and>
   (users_updatePassword ur name newPassword = Inl err \<longrightarrow>
      updateUserPassword True ur uf name newPassword =
        updateUserPasswordFile uf name newPassword)) \<and>
   ((sc_findAll sr = Inl err \<longrightarrow> getServersInfo True sr sf = getServersInfoFile sf) \<and>
   (sc_findByName sr name = Inl err \<longrightarrow>
      getServerConfigByName True sr sf name = settings_entry sf name \<and>
      addServer True sr sf name config = addServerFile sf name config \<and>
      updateMcpServer True sr sf name config = updateMcpServerFile sf name config \<and>
      removeServer True sr sf name = removeServerFile sf name) \<and>
   (sc_findByName sr name = Inr None \<and> sc_save sr (entity_of_config name config) = Inl err \<longrightarrow>
      addServer True sr sf name config = addServerFile sf name config) \<and>
   (sc_findByName sr name = Inr (Some existing) \<and>
    sc_save sr (entity_of_config name config) = Inl err \<longrightarrow>
      updateMcpServer True sr sf name config = updateMcpServerFile sf name config) \<and>
   (sc_findByName sr name = Inr (Some existing) \<and> sc_delete sr name = Inl err \<longrightarrow>
      removeServer True sr sf name = removeServerFile sf name) \<and>
   (sc_toggleEnabled sr name on = Inl err \<longrightarrow>
      toggleServerStatus True sr sf name on = toggleServerStatusFile sf name on)) \<and>
   ((groups_findAll gr = Inl err \<longrightarrow> getAllGroups True gr gf = getAllGroupsFile gf) \<and>
   (groups_findByIdOrName gr key = Inl err \<longrightarrow>
      getGroupByIdOrName True gr gf key = getGroupByIdOrNameFile gf key) \<and>
   (groups_createGroup gr name description servers = Inl err \<longrightarrow>
      createGroup True gr gf name description servers =
        createGroupFile gf name description servers) \<and>
   (groups_findOne gr gid = Inl err \<longrightarrow>
      updateGroup True gr sr gf gid patch = updateGroupFile gf gid patch) \<and>
   (groups_findOne gr gid = Inr (Some g) \<and> patch_servers patch = None \<and>
    groups_save gr
      (let g1 = (case patch_name patch of Some n \<Rightarrow> g\<lparr>group_name := n\<rparr> | None \<Rightarrow> g)
       in case patch_description patch of
            Some ds \<Rightarrow> g1\<lparr>group_description := Some ds\<rparr> | None \<Rightarrow> g1) = Inl err \<longrightarrow>
      updateGroup True gr sr gf gid patch = updateGroupFile gf gid patch) \<and>
   (groups_findOne gr gid = Inr (Some g) \<and> patch_servers patch = Some names \<and>
    find_servers sr names = Inl err \<longrightarrow>
      updateGroup True gr sr gf gid patch = updateGroupFile gf gid patch) \<and>
   (groups_findOne gr gid = Inr (Some g) \<and> patch_servers patch = Some names \<and>
    find_servers sr names = Inr found \<and>
    groups_save gr
      ((let g1 = (case patch_name patch of Some n \<Rightarrow> g\<lparr>group_name := n\<rparr> | None \<Rightarrow> g)
        in case patch_description patch of
             Some ds \<Rightarrow> g1\<lparr>group_description := Some ds\<rparr> | None \<Rightarrow> g1)
       \<lparr>group_servers := Some found\<rparr>) = Inl err \<longrightarrow>
      updateGroup True gr sr gf gid patch = updateGroupFile gf gid patch) \<and>
   (groups_delete gr gid = Inl err \<longrightarrow> deleteGroup True gr gf gid = deleteGroupFile gf gid) \<and>
   (groups_addServerToGroup gr gid serverName = Inl err \<longrightarrow>
      addServerToGroup True gr gf gid serverName = addServerToGroupFile gf gid serverName) \<and>
   (groups_removeServerFromGroup gr gid serverName = Inl err \<longrightarrow>
      removeServerFromGroup True gr gf gid serverName =
        removeServerFromGroupFile gf gid serverName) \<and>
   (groups_getGroupServers gr gid = Inl err \<longrightarrow>
      getServersInGroup True gr gf gid = getServersInGroupFile gf gid) \<and>
   (groups_updateGroupServers gr gid servers = Inl err \<longrightarrow>
      updateGroupServers True gr gf gid servers = updateGroupServersFile gf gid servers)) \<and>
   ((market_findAll mr = Inl err \<longrightarrow> getMarketServers True mr mf = getMarketServersFile mf) \<and>
   (market_findByName mr name = Inl err \<longrightarrow>
      getMarketServerByName True mr mf name = getMarketServerByNameFile mf name) \<and>
   (market_getCategories mr = Inl err \<longrightarrow>
      getMarketCategories True mr mf = getMarketCategoriesFile mf) \<and>
   (market_getTags mr = Inl err \<longrightarrow> getMarketTags True mr mf = getMarketTagsFile mf) \<and>
   (market_search mr qry = Inl err \<longrightarrow>
      searchMarketServers True mr mf qry = searchMarketServersFile mf qry) \<and>
   (market_filterByCategory mr category = Inl err \<longrightarrow>
      filterMarketServersByCategory True mr mf category =
        filterMarketServersByCategoryFile mf category) \<and>
   (market_filterByTag mr tag = Inl err \<longrightarrow>
      filterMarketServersByTag True mr mf tag = filterMarketServersByTagFile mf tag))"
  by (rule conjI [OF users_fall_back
        conjI [OF server_configs_fall_back conjI [OF groups_fall_back market_fall_back]]])

text \<open>A database that refuses every call, next to files that hold one user and one server.\<close>

definition refused :: error where
  "refused = Error ''connect ECONNREFUSED''"

definition broken_users :: user_repository where
  "broken_users =
     \<lparr>users_findAll = Inl refused, users_findByUsername = (\<lambda>n. Inl refused),
      users_createUser = (\<lambda>u. Inl refused), users_updatePassword = (\<lambda>n p. Inl refused)\<rparr>"

definition admin_user :: IUser where
  "admin_user = \<lparr>username = ''admin'', password = ''$2a$10$hash'', isAdmin = True\<rparr>"

definition file_users :: user_files where
  "file_users =
     \<lparr>getUsersFile = Inr [admin_user],
      findUserByUsernameFile = (\<lambda>n. Inr (if n = ''admin'' then Some admin_user else None)),
      createUserFile = (\<lambda>u. Inr None),
      updateUserPasswordFile = (\<lambda>n p. Inr (n = ''admin'')),
      initializeDefaultUserFile = Inr ()\<rparr>"

definition broken_configs :: server_config_repository where
  "broken_configs =
     \<lparr>sc_findAll = Inl refused, sc_findByName = (\<lambda>n. Inl refused), sc_save = (\<lambda>c. Inl refused),
      sc_delete = (\<lambda>n. Inl refused), sc_toggleEnabled = (\<lambda>n b. Inl refused)\<rparr>"

definition weather_info :: ServerInfo where
  "weather_info =
     \<lparr>si_name = ''weather'', si_status = ''connected'', si_error = None, si_tools = [getForecast],
      si_createTime = 1700000000000, si_enabled = Some True\<rparr>"

definition file_configs :: server_config_files where
  "file_configs =
     \<lparr>getServersInfoFile = Inr [weather_info], mcpServers = Inr Map.empty,
      addServerFile = (\<lambda>n c. Inr \<lparr>success = True, message = Some ''Server added successfully''\<rparr>),
      updateMcpServerFile = (\<lambda>n c. Inr \<lparr>success = False, message = Some ''Server not found''\<rparr>),
      removeServerFile = (\<lambda>n. Inr \<lparr>success = False, message = Some ''Server not found''\<rparr>),
      toggleServerStatusFile = (\<lambda>n b. Inr \<lparr>success = False, message = Some ''Server not found''\<rparr>),
      now = 1700000000001\<rparr>"

theorem adapters_fall_back_to_files_witness:
  "users_findByUsername broken_users ''admin'' = Inl refused \<and>
   findUserByUsername True broken_users file_users ''admin'' = Inr (Some admin_user) \<and>
   sc_findAll broken_configs = Inl refused \<and>
   getServersInfo True broken_configs file_configs = Inr [weather_info]"
proof -
  have a: "users_findByUsername broken_users ''admin'' = Inl refused"
    by (simp add: broken_users_def)
  have b: "sc_findAll broken_configs = Inl refused"
    by (simp add: broken_configs_def)
  have c: "findUserByUsernameFile file_users ''admin'' = Inr (Some admin_user)"
    by (simp add: file_users_def)
  have d: "getServersInfoFile file_configs = Inr [weather_info]"
    by (simp add: file_configs_def)
  note t = adapters_fall_back_to_files
    [where ur = broken_users and uf = file_users and sr = broken_configs and sf = file_configs
       and name = "''admin''" and err = refused]
  from t [THEN conjunct1, THEN conjunct2, THEN conjunct2, THEN conjunct1, THEN mp, OF a]
  have "findUserByUsername True broken_users file_users ''admin'' =
      findUserByUsernameFile file_users ''admin''" .
  moreover from t [THEN conjunct2, THEN conjunct1, THEN conjunct1, THEN mp, OF b]
  have "getServersInfo True broken_configs file_configs =
      getServersInfoFile file_configs" .
  ultimately show ?thesis using a b c d by simp
qed

section \<open>The search controller\<close>

text \<open>
  A value of \<open>req.query\<close>: absent, a string, an array or a nested object.
\<close>

datatype qval =
    QUndefined
  | QString string
  | QArray "qval list"
  | QObject "(string \<times> qval) list"

text \<open>\<open>String(v)\<close>, which \<open>parseInt\<close> and \<open>parseFloat\<close> apply to their argument.\<close>

fun to_string :: "qval \<Rightarrow> string" where
  "to_string QUndefined = ''undefined''"
| "to_string (QString s) = s"
| "to_string (QArray vs) =
     join_with '','' (map (\<lambda>v. case v of QUndefined \<Rightarrow> [] | _ \<Rightarrow> to_string v) vs)"
| "to_string (QObject kvs) = ''[object Object]''"

text \<open>
  Of the rounding of a number to a double only the two ends are modelled, since the code
  tests a number for being zero: a value of at most \<open>2^-1075\<close> is zero and a value of at
  least \<open>2^1024 - 2^970\<close> is infinite.
\<close>

definition to_double :: "real \<Rightarrow> jsnum" where
  "to_double x =
     (if \<bar>x\<bar> \<le> 1 / 2 ^ 1075 then Finite 0
      else if \<bar>x\<bar> \<ge> 2 ^ 1024 - 2 ^ 970 then (if x < 0 then NegInf else PosInf)
      else Finite x)"

definition hex_digit_value :: "char \<Rightarrow> nat option" where
  "hex_digit_value c =
     (let n = (of_char c :: nat) in
      if 48 \<le> n \<and> n \<le> 57 then Some (n - 48)
      else if 97 \<le> n \<and> n \<le> 102 then Some (n - 87)
      else if 65 \<le> n \<and> n \<le> 70 then Some (n - 55)
      else None)"

definition hex_value :: "string \<Rightarrow> nat" where
  "hex_value ds = foldl (\<lambda>a c. 16 * a + (case hex_digit_value c of Some v \<Rightarrow> v | None \<Rightarrow> 0)) 0 ds"

definition strip_sign :: "string \<Rightarrow> string" where
  "strip_sign s = (if s \<noteq> [] \<and> (hd s = CHR ''-'' \<or> hd s = CHR ''+'') then tl s else s)"

definition is_negative :: "string \<Rightarrow> bool" where
  "is_negative s = (s \<noteq> [] \<and> hd s = CHR ''-'')"

text \<open>
  \<open>parseInt(s)\<close> without a radix: leading white space, a sign, the prefix \<open>0x\<close> for
  radix 16, and the longest run of digits; \<open>NaN\<close> when there is no digit.
\<close>

definition parseInt :: "string \<Rightarrow> jsnum" where
  "parseInt s =
     (let s1 = dropWhile is_space s;
          s2 = strip_sign s1;
          hex = (take 2 s2 = ''0x'' \<or> take 2 s2 = ''0X'');
          digits = (if hex then takeWhile (\<lambda>c. hex_digit_value c \<noteq> None) (drop 2 s2)
                    else takeWhile is_digit s2);
          v = real (if hex then hex_value digits else decimal_value digits)
      in if digits = [] then NaN else to_double (if is_negative s1 then - v else v))"

text \<open>
  \<open>parseFloat(s)\<close>: leading white space, a sign, \<open>Infinity\<close> or the longest prefix that
  is a decimal literal (digits, a fraction, an exponent with at least one digit).
\<close>

definition parseFloat :: "string \<Rightarrow> jsnum" where
  "parseFloat s =
     (let s1 = dropWhile is_space s;
          s2 = strip_sign s1
      in if take 8 s2 = ''Infinity'' then (if is_negative s1 then NegInf else PosInf)
         else
           (let intPart = takeWhile is_digit s2;
                r1 = dropWhile is_digit s2;
                dot = (r1 \<noteq> [] \<and> hd r1 = CHR ''.'');
                fracPart = (if dot then takeWhile is_digit (tl r1) else []);
                r2 = (if dot then dropWhile is_digit (tl r1) else r1);
                r3 = (if r2 \<noteq> [] \<and> (hd r2 = CHR ''e'' \<or> hd r2 = CHR ''E'') then tl r2 else []);
                expDigits = takeWhile is_digit (strip_sign r3);
                mantissa = real (decimal_value (intPart @ fracPart)) / 10 ^ length fracPart;
                x = (if is_negative r3 then mantissa / 10 ^ decimal_value expDigits
                     else mantissa * 10 ^ decimal_value expDigits)
            in if intPart = [] \<and> fracPart = [] then NaN
               else to_double (if is_negative s1 then - x else x)))"

text \<open>\<open>x || d\<close> on numbers, \<open>Math.max\<close> and \<open>Math.min\<close>.\<close>

definition or_number :: "jsnum \<Rightarrow> jsnum \<Rightarrow> jsnum" where
  "or_number x d = (if x = NaN \<or> x = Finite 0 then d else x)"

fun Math_max :: "jsnum \<Rightarrow> jsnum \<Rightarrow> jsnum" where
  "Math_max NaN y = NaN"
| "Math_max x NaN = NaN"
| "Math_max PosInf y = PosInf"
| "Math_max x PosInf = PosInf"
| "Math_max NegInf y = y"
| "Math_max x NegInf = x"
| "Math_max (Finite a) (Finite b) = Finite (max a b)"

fun Math_min :: "jsnum \<Rightarrow> jsnum \<Rightarrow> jsnum" where
  "Math_min NaN y = NaN"
| "Math_min x NaN = NaN"
| "Math_min NegInf y = NegInf"
| "Math_min x NegInf = NegInf"
| "Math_min PosInf y = y"
| "Math_min x PosInf = x"
| "Math_min (Finite a) (Finite b) = Finite (min a b)"

text \<open>The destructuring defaults \<open>limit = 10\<close> and \<open>threshold = 0.7\<close> are numbers.\<close>

definition limitNum :: "qval \<Rightarrow> jsnum" where
  "limitNum limit =
     Math_min
       (Math_max
          (or_number (parseInt (case limit of QUndefined \<Rightarrow> ''10'' | v \<Rightarrow> to_string v))
             (Finite 10))
          (Finite 1))
       (Finite 100)"

definition thresholdNum :: "qval \<Rightarrow> jsnum" where
  "thresholdNum threshold =
     Math_min
       (Math_max
          (or_number (parseFloat (case threshold of QUndefined \<Rightarrow> ''0.7'' | v \<Rightarrow> to_string v))
             (Finite (7 / 10)))
          (Finite 0))
       (Finite 1)"

text \<open>\<open>s.split(',')\<close>\<close>

fun split_comma_from :: "string \<Rightarrow> string \<Rightarrow> string list" where
  "split_comma_from cur [] = [cur]"
| "split_comma_from cur (c # cs) =
     (if c = CHR '','' then cur # split_comma_from [] cs else split_comma_from (cur @ [c]) cs)"

definition serverNames_of :: "qval \<Rightarrow> string list option" where
  "serverNames_of servers =
     (case servers of
        QString s \<Rightarrow>
          (if s = [] then None
           else Some (filter (\<lambda>x. x \<noteq> []) (map trim (split_comma_from [] s))))
      | QArray vs \<Rightarrow>
          Some (filter (\<lambda>x. x \<noteq> [])
                  (map (\<lambda>v. trim (to_string v)) vs))
      | _ \<Rightarrow> None)"

record search_request =
  q_query :: qval
  q_limit :: qval
  q_threshold :: qval
  q_servers :: qval

record 'r search_data =
  d_query :: string
  d_results :: "'r list"
  d_total :: nat
  d_limit :: jsnum
  d_threshold :: jsnum
  d_servers :: "string list option"

datatype 'r response =
    Status400 string
  | Status500 string
  | Json200 "'r search_data"

text \<open>
  \<open>searchTools\<close>; \<open>search\<close> is the call of \<open>searchToolsByVector\<close> with the effective
  parameters.
\<close>

definition searchTools ::
  "(string \<Rightarrow> jsnum \<Rightarrow> jsnum \<Rightarrow> string list option \<Rightarrow> error + 'r list) \<Rightarrow> search_request \<Rightarrow>
   'r response" where
  "searchTools search req =
     (case q_query req of
        QString qry \<Rightarrow>
          (if qry = [] then Status400 ''Query parameter is required and must be a string''
           else
             (let limitN = limitNum (q_limit req);
                  thresholdN = thresholdNum (q_threshold req);
                  serverNames = serverNames_of (q_servers req)
              in case search qry limitN thresholdN serverNames of
                   Inl err \<Rightarrow> Status500 ''Internal server error''
                 | Inr results \<Rightarrow>
                     Json200 \<lparr>d_query = qry, d_results = results, d_total = length results,
                              d_limit = limitN, d_threshold = thresholdN,
                              d_servers = serverNames\<rparr>))
      | _ \<Rightarrow> Status400 ''Query parameter is required and must be a string'')"

section \<open>Properties of the search controller\<close>

lemmas parse_defs =
  parseInt_def parseFloat_def Let_def is_space_def strip_sign_def is_digit_def
  decimal_value_def hex_value_def hex_digit_value_def is_negative_def to_double_def

lemma parse_examples:
  "parseInt ''42'' = Finite 42"
  "parseInt '' -0x1F'' = Finite (- 31)"
  "parseInt ''12abc'' = Finite 12"
  "parseInt ''abc'' = NaN"
  "parseInt ''0'' = Finite 0"
  "parseFloat ''0.25e1x'' = Finite (5 / 2)"
  "parseFloat ''-.5'' = Finite (- 1 / 2)"
  "parseFloat ''.'' = NaN"
  "parseFloat ''0'' = Finite 0"
  "parseFloat ''-1'' = Finite (- 1)"
  by (simp_all add: parse_defs)

lemma or_number_not_NaN: "d \<noteq> NaN \<Longrightarrow> or_number x d \<noteq> NaN"
  by (simp add: or_number_def)

lemma clamp_is_finite:
  assumes "x \<noteq> NaN" and "lo \<le> hi"
  shows "\<exists>r. Math_min (Math_max x (Finite lo)) (Finite hi) = Finite r \<and> lo \<le> r \<and> r \<le> hi"
  using assms by (cases x) auto

text \<open>
  What holds of the effective parameters: they lie in their ranges, they are the defaults
  for an absent or non-numeric parameter, a numeric parameter other than zero is clamped,
  and a request without a non-empty string as query is answered with the status 400
  whatever the search would do.
\<close>

lemma limitNum_range: "\<exists>r. limitNum v = Finite r \<and> 1 \<le> r \<and> r \<le> 100"
  unfolding limitNum_def by (rule clamp_is_finite) (simp_all add: or_number_not_NaN)

lemma thresholdNum_range: "\<exists>r. thresholdNum v = Finite r \<and> 0 \<le> r \<and> r \<le> 1"
  unfolding thresholdNum_def by (rule clamp_is_finite) (simp_all add: or_number_not_NaN)

lemma limitNum_default:
  "limitNum QUndefined = Finite 10"
  "v \<noteq> QUndefined \<Longrightarrow> parseInt (to_string v) = NaN \<Longrightarrow> limitNum v = Finite 10"
  by (cases v; simp add: limitNum_def or_number_def parse_examples parse_defs)+

lemma thresholdNum_default:
  "thresholdNum QUndefined = Finite (7 / 10)"
  "v \<noteq> QUndefined \<Longrightarrow> parseFloat (to_string v) = NaN \<Longrightarrow> thresholdNum v = Finite (7 / 10)"
  by (cases v; simp add: thresholdNum_def or_number_def parse_defs)+

lemma limitNum_clamps:
  "v \<noteq> QUndefined \<Longrightarrow> parseInt (to_string v) = Finite n \<Longrightarrow> n \<noteq> 0 \<Longrightarrow>
   limitNum v = Finite (min (max n 1) 100)"
  by (cases v) (simp_all add: limitNum_def or_number_def)

lemma thresholdNum_clamps:
  "v \<noteq> QUndefined \<Longrightarrow> parseFloat (to_string v) = Finite x \<Longrightarrow> x \<noteq> 0 \<Longrightarrow>
   thresholdNum v = Finite (min (max x 0) 1)"
  by (cases v) (simp_all add: thresholdNum_def or_number_def)

lemma searchTools_rejects:
  "q_query req = QString [] \<or> (\<forall>qry. q_query req \<noteq> QString qry) \<Longrightarrow>
   searchTools search req = Status400 ''Query parameter is required and must be a string''"
  by (cases "q_query req") (auto simp: searchTools_def)

text \<open>
  C9. A parameter that parses to the number zero is taken for an absent one. The request
  \<open>query=weather&limit=0&threshold=0\<close> is searched with the limit 10, not with the limit 1
  that clamping into \<open>[1,100]\<close> gives, and with the threshold 0.7 although 0 lies in
  \<open>[0,1]\<close>; the threshold \<open>-1\<close>, which lies outside, is clamped to 0. The search below
  returns its own arguments, so the response shows what the search was called with.
\<close>

theorem searchTools_takes_zero_for_absent:
  "searchTools (\<lambda>qry limit threshold servers. Inr [(qry, limit, threshold, servers)])
     \<lparr>q_query = QString ''weather'', q_limit = QString ''0'', q_threshold = QString ''0'',
      q_servers = QUndefined\<rparr> =
   Json200 \<lparr>d_query = ''weather'',
            d_results = [(''weather'', Finite 10, Finite (7 / 10), None)], d_total = 1,
            d_limit = Finite 10, d_threshold = Finite (7 / 10), d_servers = None\<rparr> \<and>
   Math_min (Math_max (parseInt ''0'') (Finite 1)) (Finite 100) = Finite 1 \<and>
   Math_min (Math_max (parseFloat ''0'') (Finite 0)) (Finite 1) = Finite 0 \<and>
   thresholdNum (QString ''-1'') = Finite 0"
  by (simp add: searchTools_def limitNum_def thresholdNum_def serverNames_of_def or_number_def
      parse_examples Let_def)

end
